theory Spec2Isabelle
  imports Complex_Main "HOL-Library.Word"
begin

section \<open>Values of the host language\<close>

text \<open>
  The sources are TypeScript. Audio is carried in \<open>Int16Array\<close>s, modelled as lists of
  16-bit words; an \<open>ArrayBuffer\<close> is a list of bytes. Millisecond offsets, content
  indices and sample counts are natural numbers, as the protocol sends them.

  A property that the declarations type as an optional string can hold, at run time,
  \<open>undefined\<close>, \<open>null\<close>, a string, or (through \<open>conversation.item.created\<close>) an entry
  object \<open>{transcript: s}\<close> of the transcript queue. \<open>x += d\<close> on such a property
  converts \<open>x\<close> to a string first.

  Dictionaries are finite maps. Keys are assumed not to be names of members of
  \<open>Object.prototype\<close>, which a lookup in a plain object would also find.
\<close>

type_synonym sample = "16 word"
type_synonym byte = "8 word"

datatype jstr = Undefined | Null | Str string | Entry string

fun toString :: "jstr \<Rightarrow> string" where
  "toString Undefined = ''undefined''"
| "toString Null = ''null''"
| "toString (Str s) = s"
| "toString (Entry t) = ''[object Object]''"

definition plus_assign :: "jstr \<Rightarrow> string \<Rightarrow> jstr" where
  "plus_assign x d = Str (toString x @ d)"

text \<open>\<open>new Int16Array(buffer)\<close>: two bytes a sample, low byte first; a buffer of odd
  length raises a RangeError (\<open>None\<close>).\<close>

fun new_Int16Array :: "byte list \<Rightarrow> sample list option" where
  "new_Int16Array [] = Some []"
| "new_Int16Array [b] = None"
| "new_Int16Array (lo # hi # bs) = map_option ((#) (word_cat hi lo)) (new_Int16Array bs)"

text \<open>\<open>a.slice(s, e)\<close> for indices that are natural numbers: both are clamped to the
  length, and an end before the start gives the empty array.\<close>

definition slice_array :: "nat \<Rightarrow> nat \<Rightarrow> 'a list \<Rightarrow> 'a list" where
  "slice_array s e xs = take (e - s) (drop s xs)"

text \<open>
  The codec helpers of \<open>RealtimeUtils\<close> are collaborators outside the sources at hand, so
  the reducers take them as a parameter. Either may raise (\<open>None\<close>).
  \<open>mergeInt16Arrays\<close> receives the accumulated audio as the item holds it, which may be
  \<open>undefined\<close>.
\<close>

record utils =
  base64ToArrayBuffer :: "string \<Rightarrow> byte list option"
  mergeInt16Arrays :: "sample list option \<Rightarrow> sample list \<Rightarrow> sample list option"

section \<open>Items, responses and events (\<open>client.ts\<close>, \<open>conversation.ts\<close>)\<close>

text \<open>
  Field names carry a prefix where the source uses one name in several interfaces:
  \<open>c_\<close> for a content part, \<open>f_\<close> for the formatted accumulator, \<open>t_\<close> for the formatted
  tool, \<open>i_\<close> for an item, \<open>r_\<close> for a response, \<open>s_\<close> for a queued speech entry and
  \<open>e_\<close> for an event.
\<close>

datatype content_type = CText | CInputText | CAudio | CInputAudio
datatype item_type = Message | FunctionCall | FunctionCallOutput
datatype role = User | Assistant | System
datatype status = InProgress | Completed | Incomplete

record content_part =
  c_type :: content_type
  c_text :: jstr
  c_audio :: jstr
  c_transcript :: jstr

record formatted_tool =
  t_arguments :: string
  t_call_id :: jstr
  t_name :: jstr

record formatted =
  f_audio :: "sample list option"
  f_text :: string
  f_transcript :: jstr
  f_tool :: "formatted_tool option"
  f_output :: jstr

record item =
  i_id :: string
  i_type :: item_type
  i_role :: "role option"
  i_status :: "status option"
  i_content :: "content_part list option"
  i_call_id :: jstr
  i_name :: jstr
  i_arguments :: jstr
  i_output :: jstr
  i_formatted :: formatted

record response =
  r_id :: string
  r_output :: "string list"

text \<open>
  An event as the interface \<open>Event\<close> declares it. \<open>event_id\<close> and \<open>type\<close> are strings, the
  empty string standing for a missing one (both are falsy). \<open>item\<close> and \<open>response\<close> may
  be missing; the other fields are read only by the reducers of the event types that
  carry them and are taken to be present with their declared type.
\<close>

record event =
  e_event_id :: string
  e_type :: string
  e_item :: "item option"
  e_item_id :: string
  e_content_index :: nat
  e_transcript :: string
  e_response :: "response option"
  e_response_id :: string
  e_part :: content_part
  e_delta :: string
  e_audio_start_ms :: nat
  e_audio_end_ms :: nat

text \<open>
  What a reducer returns, \<open>{item, delta}\<close>: the item as it is when the reducer returns, or
  \<open>null\<close>, and the delta (\<open>ItemContentDeltaType\<close>, of which the reducers fill one field),
  or \<open>null\<close>. The fields of the reply carry the prefix \<open>rp_\<close>.
\<close>

datatype delta = DText string | DAudio "sample list" | DArguments string | DTranscript string

record reply =
  rp_item :: "item option"
  rp_delta :: "delta option"

text \<open>
  The errors of the modelled code: the \<open>Error\<close>s it throws, told apart by their message
  (the "not found" errors carry the reducer's name and the id), the run-time errors of
  the host language that its property accesses and constructors can raise, and an
  error raised inside a codec helper.
\<close>

datatype error =
    MissingEventId
  | MissingType
  | MissingProcessor string
  | ItemNotFound string string
  | ResponseNotFound string string
  | MissingItem
  | TypeError
  | RangeError
  | SyntaxError
  | UtilsError
  | ListenerNotFound string
  | NotConnected
  | CouldNotFindItem string
  | NotTypeMessage
  | NotRoleAssistant
  | CouldNotFindAudio
  | ToolAlreadyDefined string

section \<open>The conversation store (\<open>conversation.ts\<close>)\<close>

text \<open>
  \<open>itemLookup\<close> and \<open>items\<close> hold references to the same item objects, and the reducers
  mutate an item through the reference they get from \<open>itemLookup\<close>. The store is
  therefore modelled with an object memory: \<open>objects\<close> maps a reference to the item it
  holds, \<open>next_ref\<close> is the next unused reference, and \<open>itemLookup\<close> and \<open>items\<close> hold
  references. Responses are never removed, so \<open>responseLookup\<close> holds the position of
  the shared response object in \<open>responses\<close>.

  A reducer that raises may have mutated the store before, so every reducer returns
  the store together with its result or error.
\<close>

record speech =
  s_audio :: "sample list option"
  s_audio_start_ms :: nat
  s_audio_end_ms :: "nat option"

record conversation =
  objects :: "nat \<Rightarrow> item"
  next_ref :: nat
  itemLookup :: "string \<rightharpoonup> nat"
  items :: "nat list"
  responseLookup :: "string \<rightharpoonup> nat"
  responses :: "response list"
  queuedSpeechItems :: "string \<rightharpoonup> speech"
  queuedTranscriptItems :: "string \<rightharpoonup> string"
  queuedInputAudio :: "sample list option"

type_synonym outcome = "(error + reply) \<times> conversation"
type_synonym processor = "utils \<Rightarrow> event \<Rightarrow> sample list option \<Rightarrow> conversation \<Rightarrow> outcome"

definition defaultFrequency :: nat where
  "defaultFrequency = 24000"

definition modify :: "nat \<Rightarrow> (item \<Rightarrow> item) \<Rightarrow> conversation \<Rightarrow> conversation" where
  "modify r f c = c\<lparr>objects := (objects c)(r := f (objects c r))\<rparr>"

definition modify_formatted :: "nat \<Rightarrow> (formatted \<Rightarrow> formatted) \<Rightarrow> conversation \<Rightarrow> conversation" where
  "modify_formatted r f c = modify r (\<lambda>it. it\<lparr>i_formatted := f (i_formatted it)\<rparr>) c"

definition reply_item :: "nat \<Rightarrow> delta option \<Rightarrow> conversation \<Rightarrow> outcome" where
  "reply_item r d c = (Inr \<lparr>rp_item = Some (objects c r), rp_delta = d\<rparr>, c)"

definition reply_null :: "conversation \<Rightarrow> outcome" where
  "reply_null c = (Inr \<lparr>rp_item = None, rp_delta = None\<rparr>, c)"

text \<open>\<open>item['content'][content_index].field = ...\<close>: a TypeError when the item has no
  content list or the list has no part at that index.\<close>

definition update_part :: "nat \<Rightarrow> nat \<Rightarrow> (content_part \<Rightarrow> content_part) \<Rightarrow> conversation
    \<Rightarrow> conversation option" where
  "update_part r n f c =
     (case i_content (objects c r) of
        None \<Rightarrow> None
      | Some parts \<Rightarrow>
          if n < length parts
          then Some (modify r (\<lambda>it. it\<lparr>i_content := Some (parts[n := f (parts ! n)])\<rparr>) c)
          else None)"

subsection \<open>The reducers of \<open>EventProcessors\<close>\<close>

text \<open>
  \<open>conversation.item.created\<close>, block by block. The deep copy \<open>newItem\<close> is a new object
  at reference \<open>next_ref\<close>, entered into \<open>itemLookup\<close> and \<open>items\<close> only when the id is not
  in \<open>itemLookup\<close>, and mutated through its reference either way.
\<close>

definition new_item :: "item \<Rightarrow> conversation \<Rightarrow> conversation" where
  "new_item newItem c =
     (let r = next_ref c;
          c = c\<lparr>objects := (objects c)(r := newItem), next_ref := Suc r\<rparr>
      in if itemLookup c (i_id newItem) = None
         then c\<lparr>itemLookup := (itemLookup c)(i_id newItem \<mapsto> r), items := items c @ [r]\<rparr>
         else c)"

definition queued_speech :: "nat \<Rightarrow> string \<Rightarrow> conversation \<Rightarrow> conversation" where
  "queued_speech r k c =
     (case queuedSpeechItems c k of
        None \<Rightarrow> c
      | Some sp \<Rightarrow>
          (modify_formatted r (\<lambda>f. f\<lparr>f_audio := s_audio sp\<rparr>) c)
            \<lparr>queuedSpeechItems := (queuedSpeechItems c)(k := None)\<rparr>)"

definition formatted_text :: "nat \<Rightarrow> item \<Rightarrow> conversation \<Rightarrow> conversation" where
  "formatted_text r newItem c =
     (case i_content newItem of
        None \<Rightarrow> c
      | Some parts \<Rightarrow>
          modify_formatted r (\<lambda>f. f\<lparr>f_text :=
            foldl (\<lambda>t p. t @ toString (c_text p)) (f_text f)
              (filter (\<lambda>p. c_type p = CText \<or> c_type p = CInputText) parts)\<rparr>) c)"

text \<open>The queued transcript is read as the source reads it:
  \<open>this.queuedTranscriptItems.transcript\<close>, the entry under the key \<open>transcript\<close>.\<close>

definition queued_transcript :: "nat \<Rightarrow> string \<Rightarrow> conversation \<Rightarrow> conversation" where
  "queued_transcript r k c =
     (case queuedTranscriptItems c k of
        None \<Rightarrow> c
      | Some q \<Rightarrow>
          (modify_formatted r (\<lambda>f. f\<lparr>f_transcript :=
             (case queuedTranscriptItems c ''transcript'' of
                None \<Rightarrow> Undefined
              | Some t \<Rightarrow> Entry t)\<rparr>) c)
            \<lparr>queuedTranscriptItems := (queuedTranscriptItems c)(k := None)\<rparr>)"

definition initial_status :: "nat \<Rightarrow> item \<Rightarrow> conversation \<Rightarrow> conversation" where
  "initial_status r newItem c =
     (case i_type newItem of
        Message \<Rightarrow>
          if i_role newItem = Some User
          then let c = modify r (\<lambda>x. x\<lparr>i_status := Some Completed\<rparr>) c
               in (case queuedInputAudio c of
                     None \<Rightarrow> c
                   | Some a \<Rightarrow>
                       (modify_formatted r (\<lambda>f. f\<lparr>f_audio := Some a\<rparr>) c)
                         \<lparr>queuedInputAudio := None\<rparr>)
          else modify r (\<lambda>x. x\<lparr>i_status := Some InProgress\<rparr>) c
      | FunctionCall \<Rightarrow>
          modify r (\<lambda>x. x\<lparr>i_status := Some InProgress\<rparr>)
            (modify_formatted r (\<lambda>f. f\<lparr>f_tool :=
               Some \<lparr>t_arguments = [], t_call_id = i_call_id newItem,
                     t_name = i_name newItem\<rparr>\<rparr>) c)
      | FunctionCallOutput \<Rightarrow>
          modify_formatted r (\<lambda>f. f\<lparr>f_output := i_output newItem\<rparr>)
            (modify r (\<lambda>x. x\<lparr>i_status := Some Completed\<rparr>) c))"

definition item_created :: processor where
  "item_created U ev args c =
     (case e_item ev of
        None \<Rightarrow> (Inl SyntaxError, c)
      | Some newItem \<Rightarrow>
          let r = next_ref c;
              c = new_item newItem c;
              c = modify_formatted r (\<lambda>_. \<lparr>f_audio = Some [], f_text = [], f_transcript = Str [],
                     f_tool = None, f_output = Undefined\<rparr>) c;
              c = queued_speech r (i_id newItem) c;
              c = formatted_text r newItem c;
              c = queued_transcript r (i_id newItem) c;
              c = initial_status r newItem c
          in reply_item r None c)"

text \<open>\<open>conversation.item.deleted\<close>: \<open>indexOf\<close> and \<open>splice(index, 1)\<close> remove the first
  occurrence of the reference.\<close>

definition item_deleted :: processor where
  "item_deleted U ev args c =
     (case itemLookup c (e_item_id ev) of
        None \<Rightarrow> (Inl (ItemNotFound ''item.deleted'' (e_item_id ev)), c)
      | Some r \<Rightarrow>
          let c = c\<lparr>itemLookup := (itemLookup c)(i_id (objects c r) := None)\<rparr>;
              c = c\<lparr>items := remove1 r (items c)\<rparr>
          in reply_item r None c)"

definition transcription_completed :: processor where
  "transcription_completed U ev args c =
     (let formattedTranscript = (if e_transcript ev = [] then '' '' else e_transcript ev)
      in (case itemLookup c (e_item_id ev) of
            None \<Rightarrow>
              reply_null (c\<lparr>queuedTranscriptItems :=
                (queuedTranscriptItems c)(e_item_id ev \<mapsto> formattedTranscript)\<rparr>)
          | Some r \<Rightarrow>
              (case update_part r (e_content_index ev)
                      (\<lambda>p. p\<lparr>c_transcript := Str (e_transcript ev)\<rparr>) c of
                 None \<Rightarrow> (Inl TypeError, c)
               | Some c \<Rightarrow>
                   reply_item r (Some (DTranscript (e_transcript ev)))
                     (modify_formatted r (\<lambda>f. f\<lparr>f_transcript := Str formattedTranscript\<rparr>) c))))"

text \<open>\<open>conversation.item.truncated\<close>: the transcript is cleared before the audio is
  sliced, and slicing an \<open>undefined\<close> audio raises.\<close>

definition item_truncated :: processor where
  "item_truncated U ev args c =
     (case itemLookup c (e_item_id ev) of
        None \<Rightarrow> (Inl (ItemNotFound ''item.truncated'' (e_item_id ev)), c)
      | Some r \<Rightarrow>
          let endIndex = (e_audio_end_ms ev * defaultFrequency) div 1000;
              c = modify_formatted r (\<lambda>f. f\<lparr>f_transcript := Str []\<rparr>) c
          in (case f_audio (i_formatted (objects c r)) of
                None \<Rightarrow> (Inl TypeError, c)
              | Some a \<Rightarrow>
                  reply_item r None
                    (modify_formatted r (\<lambda>f. f\<lparr>f_audio := Some (slice_array 0 endIndex a)\<rparr>) c)))"

definition speech_started :: processor where
  "speech_started U ev args c =
     reply_null (c\<lparr>queuedSpeechItems := (queuedSpeechItems c)(e_item_id ev \<mapsto>
       \<lparr>s_audio = None, s_audio_start_ms = e_audio_start_ms ev, s_audio_end_ms = None\<rparr>)\<rparr>)"

text \<open>\<open>input_audio_buffer.speech_stopped\<close>: the second argument is the caller's input
  audio buffer, when it passes one.\<close>

definition speech_stopped :: processor where
  "speech_stopped U ev inputAudioBuffer c =
     (let sp = (case queuedSpeechItems c (e_item_id ev) of
                  None \<Rightarrow> \<lparr>s_audio = None, s_audio_start_ms = e_audio_end_ms ev,
                            s_audio_end_ms = None\<rparr>
                | Some sp \<Rightarrow> sp);
          sp = sp\<lparr>s_audio_end_ms := Some (e_audio_end_ms ev)\<rparr>;
          sp = (case inputAudioBuffer of
                  None \<Rightarrow> sp
                | Some buf \<Rightarrow>
                    let startIndex = (s_audio_start_ms sp * defaultFrequency) div 1000;
                        endIndex = (e_audio_end_ms ev * defaultFrequency) div 1000
                    in sp\<lparr>s_audio := Some (slice_array startIndex endIndex buf)\<rparr>)
      in reply_null (c\<lparr>queuedSpeechItems := (queuedSpeechItems c)(e_item_id ev \<mapsto> sp)\<rparr>))"

definition audio_delta :: processor where
  "audio_delta U ev args c =
     (case itemLookup c (e_item_id ev) of
        None \<Rightarrow> (Inl (ItemNotFound ''response.audio.delta'' (e_item_id ev)), c)
      | Some r \<Rightarrow>
          (case base64ToArrayBuffer U (e_delta ev) of
             None \<Rightarrow> (Inl UtilsError, c)
           | Some arrayBuffer \<Rightarrow>
               (case new_Int16Array arrayBuffer of
                  None \<Rightarrow> (Inl RangeError, c)
                | Some appendValues \<Rightarrow>
                    (case mergeInt16Arrays U (f_audio (i_formatted (objects c r))) appendValues of
                       None \<Rightarrow> (Inl UtilsError, c)
                     | Some merged \<Rightarrow>
                         reply_item r (Some (DAudio appendValues))
                           (modify_formatted r (\<lambda>f. f\<lparr>f_audio := Some merged\<rparr>) c)))))"

definition audio_transcript_delta :: processor where
  "audio_transcript_delta U ev args c =
     (case itemLookup c (e_item_id ev) of
        None \<Rightarrow> (Inl (ItemNotFound ''response.audio_transcript.delta'' (e_item_id ev)), c)
      | Some r \<Rightarrow>
          (case update_part r (e_content_index ev)
                  (\<lambda>p. p\<lparr>c_transcript := plus_assign (c_transcript p) (e_delta ev)\<rparr>) c of
             None \<Rightarrow> (Inl TypeError, c)
           | Some c \<Rightarrow>
               reply_item r (Some (DTranscript (e_delta ev)))
                 (modify_formatted r
                    (\<lambda>f. f\<lparr>f_transcript := plus_assign (f_transcript f) (e_delta ev)\<rparr>) c)))"

definition content_part_added :: processor where
  "content_part_added U ev args c =
     (case itemLookup c (e_item_id ev) of
        None \<Rightarrow> (Inl (ItemNotFound ''response.content_part.added'' (e_item_id ev)), c)
      | Some r \<Rightarrow>
          (case i_content (objects c r) of
             None \<Rightarrow> (Inl TypeError, c)
           | Some parts \<Rightarrow>
               reply_item r None
                 (modify r (\<lambda>it. it\<lparr>i_content := Some (parts @ [e_part ev])\<rparr>) c)))"

definition response_created :: processor where
  "response_created U ev args c =
     (case e_response ev of
        None \<Rightarrow> (Inl TypeError, c)
      | Some resp \<Rightarrow>
          reply_null
            (if responseLookup c (r_id resp) = None
             then c\<lparr>responseLookup := (responseLookup c)(r_id resp \<mapsto> length (responses c)),
                    responses := responses c @ [resp]\<rparr>
             else c))"

text \<open>\<open>response.function_call_arguments.delta\<close>: the raw \<open>arguments\<close> are extended
  before \<open>formatted.tool\<close> is read, which raises when the item has no formatted tool.\<close>

definition function_call_arguments_delta :: processor where
  "function_call_arguments_delta U ev args c =
     (case itemLookup c (e_item_id ev) of
        None \<Rightarrow>
          (Inl (ItemNotFound ''response.function_call_arguments.delta'' (e_item_id ev)), c)
      | Some r \<Rightarrow>
          let c = modify r (\<lambda>it. it\<lparr>i_arguments := plus_assign (i_arguments it) (e_delta ev)\<rparr>) c
          in (case f_tool (i_formatted (objects c r)) of
                None \<Rightarrow> (Inl TypeError, c)
              | Some t \<Rightarrow>
                  reply_item r (Some (DArguments (e_delta ev)))
                    (modify_formatted r
                       (\<lambda>f. f\<lparr>f_tool := Some (t\<lparr>t_arguments := t_arguments t @ e_delta ev\<rparr>)\<rparr>) c)))"

definition output_item_added :: processor where
  "output_item_added U ev args c =
     (case responseLookup c (e_response_id ev) of
        None \<Rightarrow> (Inl (ResponseNotFound ''response.output_item.added'' (e_response_id ev)), c)
      | Some n \<Rightarrow>
          (case e_item ev of
             None \<Rightarrow> (Inl TypeError, c)
           | Some it \<Rightarrow>
               reply_null (c\<lparr>responses := (responses c)
                 [n := (responses c ! n)\<lparr>r_output := r_output (responses c ! n) @ [i_id it]\<rparr>]\<rparr>)))"

definition output_item_done :: processor where
  "output_item_done U ev args c =
     (case e_item ev of
        None \<Rightarrow> (Inl MissingItem, c)
      | Some it \<Rightarrow>
          (case itemLookup c (i_id it) of
             None \<Rightarrow> (Inl (ItemNotFound ''response.output_item.done'' (i_id it)), c)
           | Some r \<Rightarrow>
               reply_item r None (modify r (\<lambda>x. x\<lparr>i_status := i_status it\<rparr>) c)))"

definition text_delta :: processor where
  "text_delta U ev args c =
     (case itemLookup c (e_item_id ev) of
        None \<Rightarrow> (Inl (ItemNotFound ''response.text.delta'' (e_item_id ev)), c)
      | Some r \<Rightarrow>
          (case update_part r (e_content_index ev)
                  (\<lambda>p. p\<lparr>c_text := plus_assign (c_text p) (e_delta ev)\<rparr>) c of
             None \<Rightarrow> (Inl TypeError, c)
           | Some c \<Rightarrow>
               reply_item r (Some (DText (e_delta ev)))
                 (modify_formatted r (\<lambda>f. f\<lparr>f_text := f_text f @ e_delta ev\<rparr>) c)))"

definition EventProcessors :: "string \<rightharpoonup> processor" where
  "EventProcessors = map_of
     [(''conversation.item.created'', item_created),
      (''conversation.item.deleted'', item_deleted),
      (''conversation.item.input_audio_transcription.completed'', transcription_completed),
      (''conversation.item.truncated'', item_truncated),
      (''input_audio_buffer.speech_started'', speech_started),
      (''input_audio_buffer.speech_stopped'', speech_stopped),
      (''response.audio.delta'', audio_delta),
      (''response.audio_transcript.delta'', audio_transcript_delta),
      (''response.content_part.added'', content_part_added),
      (''response.created'', response_created),
      (''response.function_call_arguments.delta'', function_call_arguments_delta),
      (''response.output_item.added'', output_item_added),
      (''response.output_item.done'', output_item_done),
      (''response.text.delta'', text_delta)]"

subsection \<open>The methods of \<open>RealtimeConversation\<close>\<close>

definition clear :: "conversation \<Rightarrow> conversation" where
  "clear c = c\<lparr>itemLookup := Map.empty, items := [], responseLookup := Map.empty,
     responses := [], queuedSpeechItems := Map.empty, queuedTranscriptItems := Map.empty,
     queuedInputAudio := None\<rparr>"

definition queueInputAudio :: "sample list \<Rightarrow> conversation \<Rightarrow> conversation" where
  "queueInputAudio inputAudio c = c\<lparr>queuedInputAudio := Some inputAudio\<rparr>"

definition processEvent :: processor where
  "processEvent U ev args c =
     (if e_event_id ev = [] then (Inl MissingEventId, c)
      else if e_type ev = [] then (Inl MissingType, c)
      else case EventProcessors (e_type ev) of
             None \<Rightarrow> (Inl (MissingProcessor (e_type ev)), c)
           | Some eventProcessor \<Rightarrow> eventProcessor U ev args c)"

definition getItem :: "string \<Rightarrow> conversation \<Rightarrow> item option" where
  "getItem k c = map_option (objects c) (itemLookup c k)"

definition getItems :: "conversation \<Rightarrow> item list" where
  "getItems c = map (objects c) (items c)"

text \<open>The store a constructor leaves: \<open>clear\<close> on an empty object memory.\<close>

definition blank_formatted :: formatted where
  "blank_formatted = \<lparr>f_audio = None, f_text = [], f_transcript = Undefined, f_tool = None,
     f_output = Undefined\<rparr>"

definition blank_item :: item where
  "blank_item = \<lparr>i_id = [], i_type = Message, i_role = None, i_status = None,
     i_content = None, i_call_id = Undefined, i_name = Undefined, i_arguments = Undefined,
     i_output = Undefined, i_formatted = blank_formatted\<rparr>"

definition new_conversation :: conversation where
  "new_conversation = clear \<lparr>objects = (\<lambda>_. blank_item), next_ref = 0, itemLookup = Map.empty,
     items = [], responseLookup = Map.empty, responses = [], queuedSpeechItems = Map.empty,
     queuedTranscriptItems = Map.empty, queuedInputAudio = None\<rparr>"

text \<open>A run of the store over a list of events with their extra arguments: a raised
  error is recorded and the store goes on from the state the raising call left.\<close>

fun process_all :: "utils \<Rightarrow> (event \<times> sample list option) list \<Rightarrow> conversation
    \<Rightarrow> (error + reply) list \<times> conversation" where
  "process_all U [] c = ([], c)"
| "process_all U ((ev, args) # rest) c =
     (let (res, c1) = processEvent U ev args c;
          (ress, c2) = process_all U rest c1
      in (res # ress, c2))"


section \<open>The event handler (\<open>event_handler.ts\<close>)\<close>

text \<open>
  A dispatched payload is any value. A handler is a callback of the caller, known by its
  identity, or the closure that \<open>waitForNext\<close> registers, which assigns the payload to
  the local variable \<open>nextEvent\<close> of its call. Calling a callback is recorded in
  \<open>calls\<close>; callbacks are taken to return normally and not to use the handler they
  are called from. \<open>nextEvent\<close> holds the local variable of each \<open>waitForNext\<close> call,
  and \<open>next_call\<close> numbers the calls.
\<close>

datatype payload =
    PUndefined
  | PNull
  | PBool bool
  | PNum int
  | PStr string
  | PObj "(string \<times> payload) list"

fun truthy :: "payload \<Rightarrow> bool" where
  "truthy PUndefined = False"
| "truthy PNull = False"
| "truthy (PBool b) = b"
| "truthy (PNum n) = (n \<noteq> 0)"
| "truthy (PStr s) = (s \<noteq> [])"
| "truthy (PObj members) = True"

datatype handler = Callback nat | NextEvent nat

record event_handler =
  eventHandlers :: "string \<rightharpoonup> handler list"
  nextEventHandlers :: "string \<rightharpoonup> handler list"
  calls :: "(nat \<times> payload) list"
  nextEvent :: "nat \<Rightarrow> payload"
  next_call :: nat

definition new_event_handler :: event_handler where
  "new_event_handler = \<lparr>eventHandlers = Map.empty, nextEventHandlers = Map.empty, calls = [],
     nextEvent = (\<lambda>_. PUndefined), next_call = 0\<rparr>"

definition or_empty :: "'a list option \<Rightarrow> 'a list" where
  "or_empty v = (case v of None \<Rightarrow> [] | Some xs \<Rightarrow> xs)"

definition clearEventHandlers :: "event_handler \<Rightarrow> event_handler" where
  "clearEventHandlers b = b\<lparr>eventHandlers := Map.empty, nextEventHandlers := Map.empty\<rparr>"

definition on :: "string \<Rightarrow> handler \<Rightarrow> event_handler \<Rightarrow> event_handler" where
  "on eventName callback b =
     b\<lparr>eventHandlers := (eventHandlers b)(eventName \<mapsto>
        or_empty (eventHandlers b eventName) @ [callback])\<rparr>"

definition onNext :: "string \<Rightarrow> handler \<Rightarrow> event_handler \<Rightarrow> event_handler" where
  "onNext eventName callback b =
     b\<lparr>nextEventHandlers := (nextEventHandlers b)(eventName \<mapsto>
        or_empty (nextEventHandlers b eventName) @ [callback])\<rparr>"

definition off :: "string \<Rightarrow> handler option \<Rightarrow> event_handler \<Rightarrow> error + event_handler" where
  "off eventName callback b =
     (let handlers = or_empty (eventHandlers b eventName)
      in (case callback of
            Some cb \<Rightarrow>
              if cb \<notin> set handlers then Inl (ListenerNotFound eventName)
              else Inr (b\<lparr>eventHandlers := (eventHandlers b)(eventName \<mapsto> remove1 cb handlers)\<rparr>)
          | None \<Rightarrow> Inr (b\<lparr>eventHandlers := (eventHandlers b)(eventName := None)\<rparr>)))"

definition offNext :: "string \<Rightarrow> handler option \<Rightarrow> event_handler \<Rightarrow> error + event_handler" where
  "offNext eventName callback b =
     (let nextHandlers = or_empty (nextEventHandlers b eventName)
      in (case callback of
            Some cb \<Rightarrow>
              if cb \<notin> set nextHandlers then Inl (ListenerNotFound eventName)
              else Inr (b\<lparr>nextEventHandlers :=
                     (nextEventHandlers b)(eventName \<mapsto> remove1 cb nextHandlers)\<rparr>)
          | None \<Rightarrow> Inr (b\<lparr>nextEventHandlers := (nextEventHandlers b)(eventName := None)\<rparr>)))"

fun call_handler :: "payload \<Rightarrow> event_handler \<Rightarrow> handler \<Rightarrow> event_handler" where
  "call_handler ev b (Callback h) = b\<lparr>calls := calls b @ [(h, ev)]\<rparr>"
| "call_handler ev b (NextEvent n) = b\<lparr>nextEvent := (nextEvent b)(n := ev)\<rparr>"

definition dispatch :: "string \<Rightarrow> payload \<Rightarrow> event_handler \<Rightarrow> event_handler" where
  "dispatch eventName ev b =
     (let handlers = or_empty (eventHandlers b eventName);
          b = foldl (call_handler ev) b handlers;
          nextHandlers = or_empty (nextEventHandlers b eventName);
          b = foldl (call_handler ev) b nextHandlers
      in b\<lparr>nextEventHandlers := (nextEventHandlers b)(eventName := None)\<rparr>)"

text \<open>
  \<open>waitForNext\<close> registers its closure and then polls: each turn of the loop tests
  \<open>nextEvent\<close>, reads the clock (in milliseconds) when a timeout is given, and sleeps.
  What happens while it sleeps is the caller's business, so the loop is run against a
  schedule: one entry for each turn, giving the clock reading of that turn and the
  dispatches made during the sleep that follows. The result is \<open>None\<close> when the schedule
  ends with the call still waiting. A timeout that is \<open>null\<close> or \<open>0\<close> is none.
\<close>

type_synonym schedule = "(nat \<times> (string \<times> payload) list) list"

definition dispatch_all :: "(string \<times> payload) list \<Rightarrow> event_handler \<Rightarrow> event_handler" where
  "dispatch_all ds b = foldl (\<lambda>b (eventName, ev). dispatch eventName ev b) b ds"

fun waitForNext_loop :: "nat option \<Rightarrow> nat \<Rightarrow> nat \<Rightarrow> schedule \<Rightarrow> event_handler
    \<Rightarrow> payload option \<times> event_handler" where
  "waitForNext_loop timeout t0 n [] b =
     (if truthy (nextEvent b n) then (Some (nextEvent b n), b) else (None, b))"
| "waitForNext_loop timeout t0 n ((t1, ds) # turns) b =
     (if truthy (nextEvent b n) then (Some (nextEvent b n), b)
      else if (case timeout of None \<Rightarrow> False | Some ms \<Rightarrow> ms \<noteq> 0 \<and> t1 - t0 > ms)
           then (Some PNull, b)
      else waitForNext_loop timeout t0 n turns (dispatch_all ds b))"

definition waitForNext :: "string \<Rightarrow> nat option \<Rightarrow> nat \<Rightarrow> schedule \<Rightarrow> event_handler
    \<Rightarrow> payload option \<times> event_handler" where
  "waitForNext eventName timeout t0 turns b =
     (let n = next_call b;
          b = b\<lparr>next_call := Suc n, nextEvent := (nextEvent b)(n := PUndefined)\<rparr>;
          b = onNext eventName (NextEvent n) b
      in waitForNext_loop timeout t0 n turns b)"


section \<open>The link to the server (\<open>api.ts\<close>)\<close>

text \<open>
  Of \<open>RealtimeAPI\<close> the model keeps the socket handle \<open>ws\<close> (\<open>None\<close> for \<open>null\<close>), the
  commands handed to \<open>ws.send\<close> and the sockets closed. A command is its type and its
  data; the \<open>event_id\<close> that \<open>send\<close> stamps on it comes from \<open>RealtimeUtils.generateId\<close>
  and is left out, as is the notification of the listeners of \<open>client.*\<close>.
\<close>

record tool_definition =
  td_type :: "string option"
  td_name :: string
  td_description :: string
  td_parameters :: payload

record turn_detection_server_vad =
  threshold :: "rat option"
  prefix_padding_ms :: "nat option"
  silence_duration_ms :: "nat option"

datatype tool_choice = Auto | NoTool | Required | Function string
datatype max_tokens = Tokens nat | Inf

text \<open>\<open>SessionResourceType\<close>, for the persisted configuration and for the argument of
  \<open>updateSession\<close> alike: \<open>None\<close> is a field that is \<open>undefined\<close>. The two fields that may
  be \<open>null\<close> hold an option of their own.\<close>

record session =
  modalities :: "string list option"
  instructions :: "string option"
  voice :: "string option"
  input_audio_format :: "string option"
  output_audio_format :: "string option"
  input_audio_transcription :: "string option option"
  turn_detection :: "turn_detection_server_vad option option"
  tools :: "tool_definition list option"
  tool_choice :: "tool_choice option"
  temperature :: "rat option"
  max_response_output_tokens :: "max_tokens option"

datatype data =
    NoData
  | SessionData session
  | TruncateData nat nat string
  | DeleteData string

type_synonym command = "string \<times> data"

record api =
  ws :: "nat option"
  sent :: "command list"
  closed :: "nat list"

definition isConnected :: "api \<Rightarrow> bool" where
  "isConnected a = (ws a \<noteq> None)"

definition api_disconnect :: "nat option \<Rightarrow> api \<Rightarrow> api" where
  "api_disconnect w a =
     (if w = None \<or> ws a = w
      then a\<lparr>closed := closed a @ (case ws a of None \<Rightarrow> [] | Some h \<Rightarrow> [h]), ws := None\<rparr>
      else a)"

definition send :: "string \<Rightarrow> data \<Rightarrow> api \<Rightarrow> error + api" where
  "send eventName d a =
     (if \<not> isConnected a then Inl NotConnected
      else Inr (a\<lparr>sent := sent a @ [(eventName, d)]\<rparr>))"

section \<open>Double-precision arithmetic\<close>

text \<open>
  \<open>cancelResponse\<close> divides before it multiplies, and the quotient is not exact in
  binary64, so the two operations are modelled with their rounding. A double is a
  mantissa and an exponent, standing for \<open>m * 2 ^ e\<close>. \<open>round_to_double a b\<close> is the
  double nearest to \<open>a / b\<close>, ties to even, with a mantissa of 53 bits; the magnitudes
  that occur are in the normal range, for a sample count that is itself a double
  (below \<open>2 ^ 53\<close>).
\<close>

fun bitlen :: "nat \<Rightarrow> nat" where
  "bitlen n = (if n = 0 then 0 else Suc (bitlen (n div 2)))"

declare bitlen.simps [simp del]

definition round_to_double :: "nat \<Rightarrow> nat \<Rightarrow> nat \<times> int" where
  "round_to_double a b =
     (if a = 0 then (0, 0)
      else let k = int (bitlen a) - int (bitlen b);
               e = (if (if 0 \<le> k then b * 2 ^ nat k \<le> a else b \<le> a * 2 ^ nat (- k))
                    then k else k - 1);
               s = 52 - e;
               n = (if 0 \<le> s then a * 2 ^ nat s else a);
               d = (if 0 \<le> s then b else b * 2 ^ nat (- s));
               f = n div d;
               r = n mod d;
               m = (if 2 * r < d then f else if d < 2 * r then f + 1
                    else if even f then f else f + 1)
           in (m, e - 52))"

text \<open>\<open>Math.floor((sampleCount / frequency) * 1000)\<close>\<close>

definition audio_end_ms_of :: "nat \<Rightarrow> nat" where
  "audio_end_ms_of sampleCount =
     (let (m, e) = round_to_double sampleCount defaultFrequency;
          (m', e') = (if 0 \<le> e then round_to_double (m * 1000 * 2 ^ nat e) 1
                      else round_to_double (m * 1000) (2 ^ nat (- e)))
      in if 0 \<le> e' then m' * 2 ^ nat e' else m' div 2 ^ nat (- e'))"

section \<open>The client (\<open>client.ts\<close>)\<close>

text \<open>\<open>this.tools\<close> is a dictionary whose keys are listed in insertion order, so it is an
  association list; a tool's handler is known by its identity.\<close>

record client =
  sessionConfig :: session
  realtime :: api
  conversation :: conversation
  sessionCreated :: bool
  registered :: "(string \<times> tool_definition \<times> nat) list"
  inputAudioBuffer :: "sample list"

definition defaultSessionConfig :: session where
  "defaultSessionConfig = \<lparr>
     modalities = Some [''text'', ''audio''],
     instructions = Some [],
     voice = Some ''shimmer'',
     input_audio_format = Some ''pcm16'',
     output_audio_format = Some ''pcm16'',
     input_audio_transcription = Some None,
     turn_detection = Some None,
     tools = Some [],
     tool_choice = Some Auto,
     temperature = Some (8 / 10),
     max_response_output_tokens = Some (Tokens 4096)\<rparr>"

definition new_client :: client where
  "new_client = \<lparr>sessionConfig = defaultSessionConfig,
     realtime = \<lparr>ws = None, sent = [], closed = []\<rparr>,
     conversation = new_conversation, sessionCreated = False, registered = [],
     inputAudioBuffer = []\<rparr>"

definition disconnect :: "client \<Rightarrow> client" where
  "disconnect cl =
     (let cl = cl\<lparr>sessionCreated := False\<rparr>;
          cl = (if isConnected (realtime cl)
                then cl\<lparr>realtime := api_disconnect None (realtime cl)\<rparr> else cl)
      in cl\<lparr>conversation := clear (conversation cl)\<rparr>)"






text \<open>\<open>item.content.findIndex((c) => c.type === 'audio')\<close>\<close>

fun findIndex :: "('a \<Rightarrow> bool) \<Rightarrow> 'a list \<Rightarrow> nat option" where
  "findIndex P [] = None"
| "findIndex P (x # xs) = (if P x then Some 0 else map_option Suc (findIndex P xs))"

definition cancelResponse :: "string \<Rightarrow> nat \<Rightarrow> client \<Rightarrow> (error + item option) \<times> client" where
  "cancelResponse k sampleCount cl =
     (if k = [] then
        (case send ''response.cancel'' NoData (realtime cl) of
           Inl e \<Rightarrow> (Inl e, cl)
         | Inr a \<Rightarrow> (Inr None, cl\<lparr>realtime := a\<rparr>))
      else
        (case getItem k (conversation cl) of
           None \<Rightarrow> (Inl (CouldNotFindItem k), cl)
         | Some it \<Rightarrow>
             if i_type it \<noteq> Message then (Inl NotTypeMessage, cl)
             else if i_role it \<noteq> Some Assistant then (Inl NotRoleAssistant, cl)
             else
               (case send ''response.cancel'' NoData (realtime cl) of
                  Inl e \<Rightarrow> (Inl e, cl)
                | Inr a \<Rightarrow>
                    let cl = cl\<lparr>realtime := a\<rparr>
                    in (case i_content it of
                          None \<Rightarrow> (Inl TypeError, cl)
                        | Some parts \<Rightarrow>
                            (case findIndex (\<lambda>c. c_type c = CAudio) parts of
                               None \<Rightarrow> (Inl CouldNotFindAudio, cl)
                             | Some audioIndex \<Rightarrow>
                                 (case send ''conversation.item.truncate''
                                         (TruncateData (audio_end_ms_of sampleCount) audioIndex k)
                                         (realtime cl) of
                                    Inl e \<Rightarrow> (Inl e, cl)
                                  | Inr a \<Rightarrow> (Inr (Some it), cl\<lparr>realtime := a\<rparr>)))))))"


section \<open>Notions for the properties\<close>


text \<open>What most reducers do to the index: nothing. They leave the index, the list and
  the next reference as they are and change no object's id; and what they change of
  the objects is confined to one reference.\<close>

definition index_kept :: "conversation \<Rightarrow> conversation \<Rightarrow> bool" where
  "index_kept c c' \<longleftrightarrow>
     itemLookup c' = itemLookup c \<and> items c' = items c \<and> next_ref c' = next_ref c
     \<and> (\<forall>r. i_id (objects c' r) = i_id (objects c r))"

definition only_at :: "nat \<Rightarrow> conversation \<Rightarrow> conversation \<Rightarrow> bool" where
  "only_at r c c' \<longleftrightarrow> (\<forall>x. x \<noteq> r \<longrightarrow> objects c' x = objects c x)"

text \<open>
  Modelled from the spec: \<open>mergeInt16Arrays\<close> of the absent \<open>utils.ts\<close> is "sample-array
  concatenation": on an audio that is there it gives the audio followed by the new
  samples.
\<close>

definition concatenating :: "utils \<Rightarrow> bool" where
  "concatenating U \<longleftrightarrow> (\<forall>l r. mergeInt16Arrays U (Some l) r = Some (l @ r))"

text \<open>The samples an audio delta decodes to, if it decodes; the deltas of the events of
  one type, in order; and a delta event that is well-formed for the item \<open>it\<close> with id
  \<open>k\<close>: it carries an event id and is addressed to \<open>k\<close>, a text or transcript delta
  names a content part the item has, an arguments delta finds a formatted tool, and an
  audio delta finds an audio and decodes to whole samples.\<close>

definition pcm16 :: "utils \<Rightarrow> string \<Rightarrow> sample list option" where
  "pcm16 U d = (case base64ToArrayBuffer U d of None \<Rightarrow> None | Some buf \<Rightarrow> new_Int16Array buf)"

definition deltas_of :: "string \<Rightarrow> event list \<Rightarrow> string list" where
  "deltas_of t evs = map e_delta (filter (\<lambda>ev. e_type ev = t) evs)"

definition delta_for :: "utils \<Rightarrow> string \<Rightarrow> item \<Rightarrow> event \<Rightarrow> bool" where
  "delta_for U k it ev \<longleftrightarrow>
     e_event_id ev \<noteq> [] \<and> e_item_id ev = k
     \<and> (e_type ev = ''response.text.delta''
           \<and> e_content_index ev < length (or_empty (i_content it))
         \<or> e_type ev = ''response.audio_transcript.delta''
           \<and> e_content_index ev < length (or_empty (i_content it))
         \<or> e_type ev = ''response.function_call_arguments.delta''
           \<and> f_tool (i_formatted it) \<noteq> None
         \<or> e_type ev = ''response.audio.delta''
           \<and> f_audio (i_formatted it) \<noteq> None \<and> pcm16 U (e_delta ev) \<noteq> None)"

text \<open>A script of subscriptions, made in order: \<open>on(name, h)\<close> and \<open>onNext(name, h)\<close> for
  callbacks of the caller; and the callbacks it registers for a name, in the order of
  the script.\<close>

datatype subscription = On string nat | OnNext string nat

fun subscribe :: "event_handler \<Rightarrow> subscription \<Rightarrow> event_handler" where
  "subscribe b (On eventName h) = on eventName (Callback h) b"
| "subscribe b (OnNext eventName h) = onNext eventName (Callback h) b"

fun persistent :: "string \<Rightarrow> subscription list \<Rightarrow> nat list" where
  "persistent x [] = []"
| "persistent x (On eventName h # subs) =
     (if eventName = x then h # persistent x subs else persistent x subs)"
| "persistent x (OnNext eventName h # subs) = persistent x subs"

fun one_shot :: "string \<Rightarrow> subscription list \<Rightarrow> nat list" where
  "one_shot x [] = []"
| "one_shot x (On eventName h # subs) = one_shot x subs"
| "one_shot x (OnNext eventName h # subs) =
     (if eventName = x then h # one_shot x subs else one_shot x subs)"

text \<open>The closure of the \<open>waitForNext\<close> call number \<open>n\<close> is registered nowhere; and it is
  registered as a one-shot handler of \<open>x\<close>, and nowhere else, with its \<open>nextEvent\<close> still
  falsy.\<close>

definition unregistered :: "nat \<Rightarrow> event_handler \<Rightarrow> bool" where
  "unregistered n b \<longleftrightarrow>
     (\<forall>y. NextEvent n \<notin> set (or_empty (eventHandlers b y))
          \<and> NextEvent n \<notin> set (or_empty (nextEventHandlers b y)))"

definition waiting :: "nat \<Rightarrow> string \<Rightarrow> event_handler \<Rightarrow> bool" where
  "waiting n x b \<longleftrightarrow>
     NextEvent n \<in> set (or_empty (nextEventHandlers b x))
     \<and> (\<forall>y. NextEvent n \<notin> set (or_empty (eventHandlers b y)))
     \<and> (\<forall>y. y \<noteq> x \<longrightarrow> NextEvent n \<notin> set (or_empty (nextEventHandlers b y)))
     \<and> \<not> truthy (nextEvent b n)"

text \<open>The turns of a schedule that come in time for a timeout of \<open>ms\<close> and see no
  dispatch of \<open>x\<close>.\<close>

definition quiet :: "string \<Rightarrow> nat \<Rightarrow> nat \<Rightarrow> schedule \<Rightarrow> bool" where
  "quiet x t0 ms turns \<longleftrightarrow> (\<forall>(t, ds) \<in> set turns. t \<le> t0 + ms \<and> x \<notin> fst ` set ds)"

section \<open>Example inputs\<close>

text \<open>A codec for the examples: a byte for each character, and concatenation.\<close>

definition example_utils :: utils where
  "example_utils = \<lparr>
     base64ToArrayBuffer = (\<lambda>s. Some (map (\<lambda>ch. of_nat (of_char ch)) s)),
     mergeInt16Arrays = (\<lambda>l r. map_option (\<lambda>l. l @ r) l)\<rparr>"

definition blank_part :: content_part where
  "blank_part = \<lparr>c_type = CText, c_text = Undefined, c_audio = Undefined,
     c_transcript = Undefined\<rparr>"

definition blank_event :: event where
  "blank_event = \<lparr>e_event_id = ''evt_1'', e_type = [], e_item = None, e_item_id = [],
     e_content_index = 0, e_transcript = [], e_response = None, e_response_id = [],
     e_part = blank_part, e_delta = [], e_audio_start_ms = 0, e_audio_end_ms = 0\<rparr>"

text \<open>A user message \<open>a\<close> with one audio part, as the server announces it, and the
  transcription that arrives before it.\<close>

definition user_item_a :: item where
  "user_item_a = blank_item\<lparr>i_id := ''a'', i_type := Message, i_role := Some User,
     i_content := Some [blank_part\<lparr>c_type := CInputAudio, c_transcript := Null\<rparr>]\<rparr>"

definition transcription_a :: event where
  "transcription_a = blank_event\<lparr>
     e_type := ''conversation.item.input_audio_transcription.completed'',
     e_item_id := ''a'', e_content_index := 0, e_transcript := ''hi''\<rparr>"

definition created_a :: event where
  "created_a = blank_event\<lparr>e_type := ''conversation.item.created'', e_item := Some user_item_a\<rparr>"

text \<open>An assistant message \<open>b\<close> with one audio part, an audio delta of sixty bytes
  (thirty samples) for it, and its truncation after one millisecond.\<close>

definition assistant_item_b :: item where
  "assistant_item_b = blank_item\<lparr>i_id := ''b'', i_type := Message, i_role := Some Assistant,
     i_content := Some [blank_part\<lparr>c_type := CAudio, c_transcript := Str []\<rparr>]\<rparr>"

definition created_b :: event where
  "created_b = blank_event\<lparr>e_type := ''conversation.item.created'',
     e_item := Some assistant_item_b\<rparr>"

definition audio_delta_b :: event where
  "audio_delta_b = blank_event\<lparr>e_type := ''response.audio.delta'', e_item_id := ''b'',
     e_delta := ''abcdefghijklmnopqrstuvwxyzabcdefghijklmnopqrstuvwxyzabcdefgh''\<rparr>"

definition truncated_b :: event where
  "truncated_b = blank_event\<lparr>e_type := ''conversation.item.truncated'', e_item_id := ''b'',
     e_audio_end_ms := 1\<rparr>"

definition store_b :: conversation where
  "store_b = snd (processEvent example_utils created_b None new_conversation)"

definition store_b_audio :: conversation where
  "store_b_audio = snd (processEvent example_utils audio_delta_b None store_b)"

text \<open>Deltas for the assistant message \<open>b\<close>: text for a content part it does not have,
  and text and transcript for the part it has.\<close>

definition text_delta_b_1 :: event where
  "text_delta_b_1 = blank_event\<lparr>e_type := ''response.text.delta'', e_item_id := ''b'',
     e_content_index := 1, e_delta := ''Hello''\<rparr>"

definition text_delta_b_0 :: event where
  "text_delta_b_0 = blank_event\<lparr>e_type := ''response.text.delta'', e_item_id := ''b'',
     e_content_index := 0, e_delta := ''Hello''\<rparr>"

definition transcript_delta_b :: event where
  "transcript_delta_b = blank_event\<lparr>e_type := ''response.audio_transcript.delta'',
     e_item_id := ''b'', e_content_index := 0, e_delta := ''Hi ''\<rparr>"


definition connected_client :: client where
  "connected_client = new_client\<lparr>realtime := \<lparr>ws = Some 1, sent = [], closed = []\<rparr>\<rparr>"

text \<open>Clients whose store holds the assistant message \<open>b\<close>: one connected, one not.\<close>

definition client_b :: client where
  "client_b = connected_client\<lparr>conversation := store_b\<rparr>"

definition offline_client_b :: client where
  "offline_client_b = new_client\<lparr>conversation := store_b\<rparr>"

text \<open>An assistant message \<open>c\<close> that has a text part and no audio part, in the store of a
  connected client.\<close>

definition assistant_item_c :: item where
  "assistant_item_c = blank_item\<lparr>i_id := ''c'', i_type := Message, i_role := Some Assistant,
     i_content := Some [blank_part\<lparr>c_type := CText, c_text := Str ''Hello''\<rparr>]\<rparr>"

definition client_c :: client where
  "client_c = connected_client\<lparr>conversation := snd (processEvent example_utils
     (blank_event\<lparr>e_type := ''conversation.item.created'', e_item := Some assistant_item_c\<rparr>)
     None new_conversation)\<rparr>"

section \<open>Verification\<close>

lemmas store_defs = modify_def modify_formatted_def reply_item_def reply_null_def update_part_def

lemmas item_created_defs = item_created_def new_item_def queued_speech_def formatted_text_def
  queued_transcript_def initial_status_def

lemmas example_defs = example_utils_def blank_part_def blank_event_def blank_item_def
  blank_formatted_def new_conversation_def clear_def

lemma EventProcessors_simps:
  "EventProcessors ''conversation.item.created'' = Some item_created"
  "EventProcessors ''conversation.item.deleted'' = Some item_deleted"
  "EventProcessors ''conversation.item.input_audio_transcription.completed''
     = Some transcription_completed"
  "EventProcessors ''conversation.item.truncated'' = Some item_truncated"
  "EventProcessors ''input_audio_buffer.speech_started'' = Some speech_started"
  "EventProcessors ''input_audio_buffer.speech_stopped'' = Some speech_stopped"
  "EventProcessors ''response.audio.delta'' = Some audio_delta"
  "EventProcessors ''response.audio_transcript.delta'' = Some audio_transcript_delta"
  "EventProcessors ''response.content_part.added'' = Some content_part_added"
  "EventProcessors ''response.created'' = Some response_created"
  "EventProcessors ''response.function_call_arguments.delta''
     = Some function_call_arguments_delta"
  "EventProcessors ''response.output_item.added'' = Some output_item_added"
  "EventProcessors ''response.output_item.done'' = Some output_item_done"
  "EventProcessors ''response.text.delta'' = Some text_delta"
  by (simp_all add: EventProcessors_def)

subsection \<open>The example stores\<close>

lemma store_b_simps:
  "itemLookup store_b ''b'' = Some 0"
  "items store_b = [0]"
  "i_formatted (objects store_b 0) = \<lparr>f_audio = Some [], f_text = [], f_transcript = Str [],
     f_tool = None, f_output = Undefined\<rparr>"
  "i_content (objects store_b 0) = Some [blank_part\<lparr>c_type := CAudio, c_transcript := Str []\<rparr>]"
  "i_type (objects store_b 0) = Message"
  "i_role (objects store_b 0) = Some Assistant"
  by (simp_all add: store_b_def created_b_def assistant_item_b_def processEvent_def
      EventProcessors_simps item_created_defs store_defs example_defs Let_def)

lemma store_b_audio_simps:
  "itemLookup store_b_audio ''b'' = Some 0"
  "length (the (f_audio (i_formatted (objects store_b_audio 0)))) = 30"
  "f_audio (i_formatted (objects store_b_audio 0)) \<noteq> None"
  by (simp_all add: store_b_audio_def audio_delta_b_def processEvent_def
      EventProcessors_simps audio_delta_def store_defs store_b_simps example_utils_def
      blank_event_def Let_def)

subsection \<open>Transcription before creation\<close>

text \<open>
  C1. A \<open>transcription.completed\<close> event for an item that is not in the store does not
  raise and queues the transcript under the item's id. When \<open>conversation.item.created\<close>
  arrives for that id, the queue entry is discarded, but the created item does not
  expose the queued transcript \<open>hi\<close>: its \<open>formatted.transcript\<close> is \<open>undefined\<close>, since the
  reducer reads the queue under the key \<open>transcript\<close> and not under the item's id.
\<close>

theorem queued_transcript_not_exposed:
  "(let (r1, c1) = processEvent example_utils transcription_a None new_conversation;
        (r2, c2) = processEvent example_utils created_a None c1
    in r1 = Inr \<lparr>rp_item = None, rp_delta = None\<rparr>
       \<and> queuedTranscriptItems c1 ''a'' = Some ''hi''
       \<and> map_option (\<lambda>it. f_transcript (i_formatted it)) (getItem ''a'' c2) = Some Undefined
       \<and> queuedTranscriptItems c2 ''a'' = None)"
  by (simp add: processEvent_def EventProcessors_simps transcription_completed_def
      item_created_defs getItem_def store_defs example_defs user_item_a_def
      transcription_a_def created_a_def Let_def)

subsection \<open>Unknown item ids\<close>

text \<open>
  C5. A \<open>conversation.item.deleted\<close>, \<open>conversation.item.truncated\<close> or
  \<open>response.output_item.done\<close> event whose item id \<open>k\<close> is not in the store raises, and the
  store the call leaves is the store it found, in every component. For an event that
  carries an \<open>event_id\<close> the error is the reducer's "not found" error for \<open>k\<close>.
\<close>

theorem unknown_id_raises_unmodified:
  assumes "(e_type ev = ''conversation.item.deleted'' \<or> e_type ev = ''conversation.item.truncated'')
             \<and> k = e_item_id ev
           \<or> e_type ev = ''response.output_item.done'' \<and> (\<exists>it. e_item ev = Some it \<and> k = i_id it)"
    and "itemLookup c k = None"
  shows "snd (processEvent U ev args c) = c
         \<and> (\<exists>e. fst (processEvent U ev args c) = Inl e)
         \<and> (e_event_id ev \<noteq> [] \<longrightarrow>
              fst (processEvent U ev args c) =
                Inl (ItemNotFound
                  (if e_type ev = ''conversation.item.deleted'' then ''item.deleted''
                   else if e_type ev = ''conversation.item.truncated'' then ''item.truncated''
                   else ''response.output_item.done'') k))"
  using assms
  by (auto simp: processEvent_def EventProcessors_simps item_deleted_def item_truncated_def
      output_item_done_def)

theorem unknown_id_raises_unmodified_witness:
  "processEvent example_utils
     (blank_event\<lparr>e_type := ''conversation.item.deleted'', e_item_id := ''zz''\<rparr>) None
     new_conversation
   = (Inl (ItemNotFound ''item.deleted'' ''zz''), new_conversation)"
  using unknown_id_raises_unmodified
    [of "blank_event\<lparr>e_type := ''conversation.item.deleted'', e_item_id := ''zz''\<rparr>" "''zz''"
        new_conversation example_utils None]
  by (simp add: prod_eq_iff blank_event_def new_conversation_def clear_def)

subsection \<open>Truncation\<close>

text \<open>
  C8. For an item \<open>k\<close> of the store and a \<open>conversation.item.truncated\<close> event for it with
  any \<open>audio_end_ms\<close>: afterwards the item's \<open>formatted.transcript\<close> is the empty string,
  always; and when the item's audio had at least \<open>n = floor(audio_end_ms * 24000 / 1000)\<close>
  samples, the call returns the item and its audio is the first \<open>n\<close> samples of the old
  audio, of length \<open>n\<close>.
\<close>

theorem truncated_audio_and_transcript:
  assumes "itemLookup c k = Some r"
    and "e_type ev = ''conversation.item.truncated''"
    and "e_item_id ev = k"
    and "e_event_id ev \<noteq> []"
  shows "(let c' = snd (processEvent U ev args c);
              f = i_formatted (objects c r);
              f' = i_formatted (objects c' r);
              n = e_audio_end_ms ev * 24000 div 1000
          in itemLookup c' k = Some r
             \<and> f_transcript f' = Str []
             \<and> (\<forall>a. f_audio f = Some a \<and> n \<le> length a \<longrightarrow>
                   (\<exists>a'. f_audio f' = Some a' \<and> length a' = n \<and> a' = take n a)
                   \<and> fst (processEvent U ev args c)
                       = Inr \<lparr>rp_item = Some (objects c' r), rp_delta = None\<rparr>))"
  using assms
  by (auto simp: processEvent_def EventProcessors_simps item_truncated_def store_defs
      Let_def slice_array_def defaultFrequency_def split: option.splits)

theorem truncated_audio_and_transcript_witness:
  "itemLookup store_b_audio ''b'' = Some 0
   \<and> length (the (f_audio (i_formatted (objects store_b_audio 0)))) = 30
   \<and> (let c' = snd (processEvent example_utils truncated_b None store_b_audio);
           f' = i_formatted (objects c' 0)
       in f_transcript f' = Str [] \<and> length (the (f_audio f')) = 24)"
proof -
  obtain a where a: "f_audio (i_formatted (objects store_b_audio 0)) = Some a"
    using store_b_audio_simps(3) by blast
  then have len: "length a = 30"
    using store_b_audio_simps(2) by simp
  show ?thesis
    using truncated_audio_and_transcript
      [of store_b_audio "''b''" 0 truncated_b example_utils None] a len
    by (simp add: store_b_audio_simps truncated_b_def blank_event_def Let_def)
qed

subsection \<open>Session configuration\<close>



subsection \<open>Disconnecting\<close>

text \<open>
  C10. \<open>disconnect\<close> has no failing path: it is a function of the client alone. For any
  client, connected or not, the client it leaves has the session-created flag off and
  no socket, and its store has an empty item index, an empty item list, no responses,
  no queued speech or transcript entries and no queued input audio; disconnecting it
  again changes nothing.
\<close>

theorem disconnect_clears_store:
  "(let cl' = disconnect cl; c' = conversation cl'
    in \<not> sessionCreated cl' \<and> \<not> isConnected (realtime cl')
       \<and> itemLookup c' = Map.empty \<and> items c' = [] \<and> getItems c' = []
       \<and> responseLookup c' = Map.empty \<and> responses c' = []
       \<and> queuedSpeechItems c' = Map.empty \<and> queuedTranscriptItems c' = Map.empty
       \<and> queuedInputAudio c' = None
       \<and> disconnect cl' = cl')"
  by (simp add: disconnect_def clear_def isConnected_def api_disconnect_def getItems_def Let_def)

theorem disconnect_clears_store_witness:
  "(let cl' = disconnect (connected_client\<lparr>conversation := store_b_audio, sessionCreated := True\<rparr>)
    in items store_b_audio = [0] \<and> \<not> sessionCreated cl' \<and> ws (realtime cl') = None
       \<and> closed (realtime cl') = [1] \<and> items (conversation cl') = []
       \<and> getItem ''b'' (conversation cl') = None)"
  using disconnect_clears_store
    [of "connected_client\<lparr>conversation := store_b_audio, sessionCreated := True\<rparr>"]
  by (simp add: Let_def disconnect_def connected_client_def new_client_def isConnected_def
      api_disconnect_def getItem_def clear_def store_b_audio_def audio_delta_b_def
      processEvent_def EventProcessors_simps audio_delta_def store_defs store_b_simps
      example_utils_def blank_event_def)

subsection \<open>Dispatch order\<close>

lemma foldl_call_callbacks:
  "foldl (call_handler ev) b (map Callback hs) = b\<lparr>calls := calls b @ map (\<lambda>h. (h, ev)) hs\<rparr>"
  by (induction hs arbitrary: b) simp_all

lemma or_empty_simps [simp]: "or_empty None = []" "or_empty (Some xs) = xs"
  by (simp_all add: or_empty_def)

lemma handlers_on:
  "or_empty (eventHandlers (on n h b) x)
     = (if n = x then or_empty (eventHandlers b x) @ [h] else or_empty (eventHandlers b x))"
  "nextEventHandlers (on n h b) = nextEventHandlers b"
  "calls (on n h b) = calls b"
  by (simp_all add: on_def)

lemma handlers_onNext:
  "or_empty (nextEventHandlers (onNext n h b) x)
     = (if n = x then or_empty (nextEventHandlers b x) @ [h]
        else or_empty (nextEventHandlers b x))"
  "eventHandlers (onNext n h b) = eventHandlers b"
  "calls (onNext n h b) = calls b"
  by (simp_all add: onNext_def)

lemma subscribe_persistent:
  "or_empty (eventHandlers (foldl subscribe b subs) x)
     = or_empty (eventHandlers b x) @ map Callback (persistent x subs)"
proof (induction subs arbitrary: b)
  case Nil
  show ?case by simp
next
  case (Cons s subs)
  show ?case
    by (cases s) (simp_all add: Cons.IH handlers_on handlers_onNext)
qed

lemma subscribe_one_shot:
  "or_empty (nextEventHandlers (foldl subscribe b subs) x)
     = or_empty (nextEventHandlers b x) @ map Callback (one_shot x subs)"
proof (induction subs arbitrary: b)
  case Nil
  show ?case by simp
next
  case (Cons s subs)
  show ?case
    by (cases s) (simp_all add: Cons.IH handlers_on handlers_onNext)
qed

lemma subscribe_calls: "calls (foldl subscribe b subs) = calls b"
proof (induction subs arbitrary: b)
  case Nil
  show ?case by simp
next
  case (Cons s subs)
  show ?case
    by (cases s) (simp_all add: Cons.IH handlers_on handlers_onNext)
qed

lemma dispatch_callbacks:
  assumes "or_empty (eventHandlers b x) = map Callback hs"
    and "or_empty (nextEventHandlers b x) = map Callback ns"
  shows "dispatch x ev b = b\<lparr>calls := calls b @ map (\<lambda>h. (h, ev)) (hs @ ns),
           nextEventHandlers := (nextEventHandlers b)(x := None)\<rparr>"
  using assms by (simp add: dispatch_def Let_def foldl_call_callbacks)

text \<open>
  C7. After any script of \<open>on\<close> and \<open>onNext\<close> subscriptions on a new event handler, for
  every event name \<open>x\<close>: a dispatch of \<open>x\<close> calls the persistent callbacks of \<open>x\<close> in the
  order of their registration, then the one-shot callbacks of \<open>x\<close> in the order of
  theirs, each with the payload, and leaves no one-shot callback for \<open>x\<close>; a second
  dispatch of \<open>x\<close> calls the persistent callbacks again and no one-shot callback.
\<close>

theorem dispatch_persistent_then_one_shot:
  "(let b = foldl subscribe new_event_handler subs;
        b1 = dispatch x ev1 b;
        b2 = dispatch x ev2 b1
    in calls b1 = map (\<lambda>h. (h, ev1)) (persistent x subs @ one_shot x subs)
       \<and> nextEventHandlers b1 x = None
       \<and> calls b2 = calls b1 @ map (\<lambda>h. (h, ev2)) (persistent x subs))"
proof -
  define b where "b = foldl subscribe new_event_handler subs"
  have hs: "or_empty (eventHandlers b x) = map Callback (persistent x subs)"
    unfolding b_def by (simp add: subscribe_persistent new_event_handler_def)
  have ns: "or_empty (nextEventHandlers b x) = map Callback (one_shot x subs)"
    unfolding b_def by (simp add: subscribe_one_shot new_event_handler_def)
  have cs: "calls b = []"
    unfolding b_def by (simp add: subscribe_calls new_event_handler_def)
  define b1 where "b1 = dispatch x ev1 b"
  have b1: "b1 = b\<lparr>calls := calls b @ map (\<lambda>h. (h, ev1)) (persistent x subs @ one_shot x subs),
              nextEventHandlers := (nextEventHandlers b)(x := None)\<rparr>"
    unfolding b1_def by (rule dispatch_callbacks [OF hs ns])
  have hs1: "or_empty (eventHandlers b1 x) = map Callback (persistent x subs)"
    by (simp add: b1 hs)
  have ns1: "or_empty (nextEventHandlers b1 x) = map Callback []"
    by (simp add: b1)
  have b2: "dispatch x ev2 b1 = b1\<lparr>calls := calls b1 @ map (\<lambda>h. (h, ev2)) (persistent x subs @ []),
              nextEventHandlers := (nextEventHandlers b1)(x := None)\<rparr>"
    by (rule dispatch_callbacks [OF hs1 ns1])
  show ?thesis
    unfolding Let_def b_def [symmetric] b1_def [symmetric]
    by (simp add: b2) (simp add: b1 cs)
qed

theorem dispatch_persistent_then_one_shot_witness:
  "(let b = onNext ''x'' (Callback 2) (on ''x'' (Callback 1) new_event_handler);
        b1 = dispatch ''x'' (PObj [(''a'', PNum 1)]) b;
        b2 = dispatch ''x'' (PObj []) b1
    in calls b1 = [(1, PObj [(''a'', PNum 1)]), (2, PObj [(''a'', PNum 1)])]
       \<and> calls b2 = [(1, PObj [(''a'', PNum 1)]), (2, PObj [(''a'', PNum 1)]), (1, PObj [])])"
  using dispatch_persistent_then_one_shot
    [of "[On ''x'' 1, OnNext ''x'' 2]" "''x''" "PObj [(''a'', PNum 1)]" "PObj []"]
  by (simp add: Let_def)

subsection \<open>Unique item ids\<close>

lemma index_kept_refl [simp]: "index_kept c c"
  by (simp add: index_kept_def)


lemma index_kept_modify:
  "(\<And>it. i_id (f it) = i_id it) \<Longrightarrow> index_kept c (modify r f c)"
  by (simp add: index_kept_def modify_def)

lemma index_kept_modify_formatted [simp]: "index_kept c (modify_formatted r f c)"
  by (simp add: modify_formatted_def index_kept_modify)

lemma index_kept_status [simp]: "index_kept c (modify r (\<lambda>x. x\<lparr>i_status := s\<rparr>) c)"
  by (simp add: index_kept_modify)

lemma index_kept_queues [simp]:
  "index_kept c c' \<Longrightarrow> index_kept c (c'\<lparr>queuedSpeechItems := qs\<rparr>)"
  "index_kept c c' \<Longrightarrow> index_kept c (c'\<lparr>queuedTranscriptItems := qt\<rparr>)"
  "index_kept c c' \<Longrightarrow> index_kept c (c'\<lparr>queuedInputAudio := qa\<rparr>)"
  "index_kept c c' \<Longrightarrow> index_kept c (c'\<lparr>responses := rs\<rparr>)"
  "index_kept c c' \<Longrightarrow> index_kept c (c'\<lparr>responseLookup := rl\<rparr>)"
  by (simp_all add: index_kept_def)


lemma only_at_refl [simp]: "only_at r c c"
  by (simp add: only_at_def)


lemma only_at_modify [simp]: "only_at r c (modify r f c)" "only_at r c (modify_formatted r g c)"
  by (simp_all add: only_at_def modify_def modify_formatted_def)

lemma only_at_queues [simp]:
  "only_at r c c' \<Longrightarrow> only_at r c (c'\<lparr>queuedSpeechItems := qs\<rparr>)"
  "only_at r c c' \<Longrightarrow> only_at r c (c'\<lparr>queuedTranscriptItems := qt\<rparr>)"
  "only_at r c c' \<Longrightarrow> only_at r c (c'\<lparr>queuedInputAudio := qa\<rparr>)"
  by (simp_all add: only_at_def)

























subsection \<open>Deltas\<close>

lemma or_empty_content_update_part:
  "update_part r n f c = Some c' \<Longrightarrow>
     length (or_empty (i_content (objects c' x))) = length (or_empty (i_content (objects c x)))
     \<and> i_formatted (objects c' x) = i_formatted (objects c x)
     \<and> itemLookup c' = itemLookup c"
  by (auto simp: update_part_def modify_def split: option.splits if_splits)

lemma update_part_in_range:
  "n < length (or_empty (i_content (objects c r))) \<Longrightarrow> \<exists>c'. update_part r n f c = Some c'"
  by (cases "i_content (objects c r)") (auto simp: update_part_def)

lemma deltas_of_simps [simp]:
  "deltas_of t [] = []"
  "deltas_of t (ev # evs) = (if e_type ev = t then e_delta ev # deltas_of t evs
                             else deltas_of t evs)"
  by (simp_all add: deltas_of_def)

text \<open>One well-formed delta: the call returns, the index is as before, the shape of the
  item that well-formedness looks at is as before, and each of the four accumulators
  has grown by the event's delta if the event is of its type and is as before if not.\<close>

lemma delta_step:
  fixes args :: "sample list option"
  assumes U: "concatenating U"
    and r: "itemLookup c k = Some r"
    and ok: "delta_for U k (objects c r) ev"
  defines "c' \<equiv> snd (processEvent U ev args c)"
  defines "f \<equiv> i_formatted (objects c r)"
  defines "f' \<equiv> i_formatted (objects c' r)"
  shows "\<exists>res. fst (processEvent U ev args c) = Inr res"
    and "itemLookup c' = itemLookup c"
    and "length (or_empty (i_content (objects c' r))) = length (or_empty (i_content (objects c r)))"
    and "(f_tool f' = None) = (f_tool f = None)"
    and "(f_audio f' = None) = (f_audio f = None)"
    and "f_text f' = f_text f @ concat (deltas_of ''response.text.delta'' [ev])"
    and "toString (f_transcript f')
          = toString (f_transcript f) @ concat (deltas_of ''response.audio_transcript.delta'' [ev])"
    and "map_option t_arguments (f_tool f')
          = map_option (\<lambda>a. a @ concat (deltas_of ''response.function_call_arguments.delta'' [ev]))
              (map_option t_arguments (f_tool f))"
    and "f_audio f'
          = map_option (\<lambda>a. a @ concat (map (\<lambda>d. or_empty (pcm16 U d))
              (deltas_of ''response.audio.delta'' [ev]))) (f_audio f)"
proof -
  from ok have id: "e_event_id ev \<noteq> []" and k: "e_item_id ev = k"
    by (simp_all add: delta_for_def)
  from ok consider
      (is_text) "e_type ev = ''response.text.delta''"
        "e_content_index ev < length (or_empty (i_content (objects c r)))"
    | (is_transcript) "e_type ev = ''response.audio_transcript.delta''"
        "e_content_index ev < length (or_empty (i_content (objects c r)))"
    | (is_arguments) "e_type ev = ''response.function_call_arguments.delta''"
        "f_tool (i_formatted (objects c r)) \<noteq> None"
    | (is_audio) "e_type ev = ''response.audio.delta''"
        "f_audio (i_formatted (objects c r)) \<noteq> None" "pcm16 U (e_delta ev) \<noteq> None"
    by (auto simp: delta_for_def)
  then have "(\<exists>res. fst (processEvent U ev args c) = Inr res)
      \<and> itemLookup c' = itemLookup c
      \<and> length (or_empty (i_content (objects c' r))) = length (or_empty (i_content (objects c r)))
      \<and> (f_tool f' = None) = (f_tool f = None)
      \<and> (f_audio f' = None) = (f_audio f = None)
      \<and> f_text f' = f_text f @ concat (deltas_of ''response.text.delta'' [ev])
      \<and> toString (f_transcript f')
          = toString (f_transcript f) @ concat (deltas_of ''response.audio_transcript.delta'' [ev])
      \<and> map_option t_arguments (f_tool f')
          = map_option (\<lambda>a. a @ concat (deltas_of ''response.function_call_arguments.delta'' [ev]))
              (map_option t_arguments (f_tool f))
      \<and> f_audio f'
          = map_option (\<lambda>a. a @ concat (map (\<lambda>d. or_empty (pcm16 U d))
              (deltas_of ''response.audio.delta'' [ev]))) (f_audio f)"
  proof cases
    case is_text
    obtain c1 where c1: "update_part r (e_content_index ev)
        (\<lambda>p. p\<lparr>c_text := plus_assign (c_text p) (e_delta ev)\<rparr>) c = Some c1"
      using update_part_in_range [OF is_text(2)] by blast
    note s = or_empty_content_update_part [OF c1]
    have res: "processEvent U ev args c = reply_item r (Some (DText (e_delta ev)))
        (modify_formatted r (\<lambda>f. f\<lparr>f_text := f_text f @ e_delta ev\<rparr>) c1)"
      using id is_text(1) r k c1
      by (simp add: processEvent_def EventProcessors_simps text_delta_def)
    show ?thesis
      unfolding c'_def f_def f'_def res using s [of r] is_text(1)
      by (cases "f_tool (i_formatted (objects c r))"; cases "f_audio (i_formatted (objects c r))")
         (simp_all add: reply_item_def modify_formatted_def modify_def s)
  next
    case is_transcript
    obtain c1 where c1: "update_part r (e_content_index ev)
        (\<lambda>p. p\<lparr>c_transcript := plus_assign (c_transcript p) (e_delta ev)\<rparr>) c = Some c1"
      using update_part_in_range [OF is_transcript(2)] by blast
    note s = or_empty_content_update_part [OF c1]
    have res: "processEvent U ev args c = reply_item r (Some (DTranscript (e_delta ev)))
        (modify_formatted r
           (\<lambda>f. f\<lparr>f_transcript := plus_assign (f_transcript f) (e_delta ev)\<rparr>) c1)"
      using id is_transcript(1) r k c1
      by (simp add: processEvent_def EventProcessors_simps audio_transcript_delta_def)
    show ?thesis
      unfolding c'_def f_def f'_def res using s [of r] is_transcript(1)
      by (cases "f_tool (i_formatted (objects c r))"; cases "f_audio (i_formatted (objects c r))")
         (simp_all add: reply_item_def modify_formatted_def modify_def s plus_assign_def)
  next
    case is_arguments
    from is_arguments obtain t where t: "f_tool (i_formatted (objects c r)) = Some t" by blast
    have res: "processEvent U ev args c = reply_item r (Some (DArguments (e_delta ev)))
        (modify_formatted r
           (\<lambda>f. f\<lparr>f_tool := Some (t\<lparr>t_arguments := t_arguments t @ e_delta ev\<rparr>)\<rparr>)
           (modify r (\<lambda>it. it\<lparr>i_arguments := plus_assign (i_arguments it) (e_delta ev)\<rparr>) c))"
      using id is_arguments(1) r k t
      by (simp add: processEvent_def EventProcessors_simps function_call_arguments_delta_def
          Let_def modify_def)
    show ?thesis
      unfolding c'_def f_def f'_def res using is_arguments(1) t
      by (cases "f_audio (i_formatted (objects c r))")
         (simp_all add: reply_item_def modify_formatted_def modify_def)
  next
    case is_audio
    from is_audio obtain a s where a: "f_audio (i_formatted (objects c r)) = Some a"
      and s: "pcm16 U (e_delta ev) = Some s" by blast
    from s obtain buf where buf: "base64ToArrayBuffer U (e_delta ev) = Some buf"
      "new_Int16Array buf = Some s"
      by (auto simp: pcm16_def split: option.splits)
    have m: "mergeInt16Arrays U (Some a) s = Some (a @ s)"
      using U by (simp add: concatenating_def)
    have res: "processEvent U ev args c = reply_item r (Some (DAudio s))
        (modify_formatted r (\<lambda>f. f\<lparr>f_audio := Some (a @ s)\<rparr>) c)"
      using id is_audio(1) r k a buf m
      by (simp add: processEvent_def EventProcessors_simps audio_delta_def)
    show ?thesis
      unfolding c'_def f_def f'_def res using is_audio(1) a s
      by (cases "f_tool (i_formatted (objects c r))")
         (simp_all add: reply_item_def modify_formatted_def modify_def)
  qed
  then show "\<exists>res. fst (processEvent U ev args c) = Inr res"
    and "itemLookup c' = itemLookup c"
    and "length (or_empty (i_content (objects c' r))) = length (or_empty (i_content (objects c r)))"
    and "(f_tool f' = None) = (f_tool f = None)"
    and "(f_audio f' = None) = (f_audio f = None)"
    and "f_text f' = f_text f @ concat (deltas_of ''response.text.delta'' [ev])"
    and "toString (f_transcript f')
          = toString (f_transcript f) @ concat (deltas_of ''response.audio_transcript.delta'' [ev])"
    and "map_option t_arguments (f_tool f')
          = map_option (\<lambda>a. a @ concat (deltas_of ''response.function_call_arguments.delta'' [ev]))
              (map_option t_arguments (f_tool f))"
    and "f_audio f'
          = map_option (\<lambda>a. a @ concat (map (\<lambda>d. or_empty (pcm16 U d))
              (deltas_of ''response.audio.delta'' [ev]))) (f_audio f)"
    by blast+
qed

lemma delta_for_shape:
  assumes "length (or_empty (i_content it')) = length (or_empty (i_content it))"
    and "(f_tool (i_formatted it') = None) = (f_tool (i_formatted it) = None)"
    and "(f_audio (i_formatted it') = None) = (f_audio (i_formatted it) = None)"
  shows "delta_for U k it' ev = delta_for U k it ev"
  using assms by (simp add: delta_for_def)

lemma deltas_of_Cons: "deltas_of t (ev # evs) = deltas_of t [ev] @ deltas_of t evs"
  by simp

lemma process_all_fst_Cons:
  "fst (process_all U ((ev, args) # evs) c)
     = fst (processEvent U ev args c) # fst (process_all U evs (snd (processEvent U ev args c)))"
  by (simp add: split_beta)

lemma deltas_run:
  fixes evs :: "(event \<times> sample list option) list"
  assumes "concatenating U"
    and "itemLookup c k = Some r"
    and "\<forall>ev \<in> set (map fst evs). delta_for U k (objects c r) ev"
  defines "c' \<equiv> snd (process_all U evs c)"
  defines "f \<equiv> i_formatted (objects c r)"
  defines "f' \<equiv> i_formatted (objects c' r)"
  shows "(\<forall>res \<in> set (fst (process_all U evs c)). \<exists>v. res = Inr v)
    \<and> itemLookup c' k = Some r
    \<and> f_text f' = f_text f @ concat (deltas_of ''response.text.delta'' (map fst evs))
    \<and> toString (f_transcript f')
        = toString (f_transcript f)
          @ concat (deltas_of ''response.audio_transcript.delta'' (map fst evs))
    \<and> map_option t_arguments (f_tool f')
        = map_option
            (\<lambda>a. a @ concat (deltas_of ''response.function_call_arguments.delta'' (map fst evs)))
            (map_option t_arguments (f_tool f))
    \<and> f_audio f'
        = map_option (\<lambda>a. a @ concat (map (\<lambda>d. or_empty (pcm16 U d))
            (deltas_of ''response.audio.delta'' (map fst evs)))) (f_audio f)"
  using assms(2,3) unfolding c'_def f_def f'_def
proof (induction evs arbitrary: c)
  case Nil
  show ?case
    using Nil.prems(1) by (simp add: option.map_ident option.map_comp comp_def)
next
  case (Cons e evs)
  obtain ev args where e: "e = (ev, args)" by (cases e)
  let ?c1 = "snd (processEvent U ev args c)"
  have ok: "delta_for U k (objects c r) ev"
    using Cons.prems(2) by (simp add: e)
  note st = delta_step [OF assms(1) Cons.prems(1) ok, of args]
  have r1: "itemLookup ?c1 k = Some r"
    using st(2) Cons.prems(1) by simp
  have ok1: "\<forall>ev' \<in> set (map fst evs). delta_for U k (objects ?c1 r) ev'"
    using Cons.prems(2) delta_for_shape [OF st(3) st(4) st(5)] by simp
  note ih = Cons.IH [OF r1 ok1]
  let ?c2 = "snd (process_all U evs ?c1)"
  have fin: "snd (process_all U (e # evs) c) = ?c2"
    by (simp add: e split_beta)
  have res: "\<forall>res \<in> set (fst (process_all U (e # evs) c)). \<exists>v. res = Inr v"
    using st(1) ih unfolding e process_all_fst_Cons by auto
  have tx: "f_text (i_formatted (objects ?c2 r))
      = f_text (i_formatted (objects c r))
        @ concat (deltas_of ''response.text.delta'' (map fst (e # evs)))"
    using ih st(6) by (simp add: e)
  have tr: "toString (f_transcript (i_formatted (objects ?c2 r)))
      = toString (f_transcript (i_formatted (objects c r)))
        @ concat (deltas_of ''response.audio_transcript.delta'' (map fst (e # evs)))"
    using ih st(7) by (simp add: e)
  have ar: "map_option t_arguments (f_tool (i_formatted (objects ?c2 r)))
      = map_option
          (\<lambda>a. a @ concat (deltas_of ''response.function_call_arguments.delta'' (map fst (e # evs))))
          (map_option t_arguments (f_tool (i_formatted (objects c r))))"
    using ih st(8) by (simp add: e option.map_comp comp_def)
  have au: "f_audio (i_formatted (objects ?c2 r))
      = map_option (\<lambda>a. a @ concat (map (\<lambda>d. or_empty (pcm16 U d))
          (deltas_of ''response.audio.delta'' (map fst (e # evs)))))
          (f_audio (i_formatted (objects c r)))"
    using ih st(9) by (simp add: e option.map_comp comp_def)
  show ?case
    unfolding fin using res ih tx tr ar au by blast
qed

text \<open>
  C2, as the code has it. Let \<open>k\<close> be an item of the store and let every event of a
  sequence be a delta event that is well-formed for it (\<open>delta_for\<close>), with a codec
  whose merge is concatenation. Then no call raises, the item stays in the index, and
  afterwards \<open>formatted.text\<close>, \<open>formatted.transcript\<close> (read as a string),
  \<open>formatted.tool.arguments\<close> and \<open>formatted.audio\<close> are their initial values followed
  by the deltas of their event type in arrival order, the audio deltas decoded to
  samples.
\<close>

theorem well_formed_deltas_concatenate:
  fixes evs :: "(event \<times> sample list option) list"
  assumes "concatenating U"
    and "itemLookup c k = Some r"
    and "\<forall>ev \<in> set (map fst evs). delta_for U k (objects c r) ev"
  shows "(\<forall>res \<in> set (fst (process_all U evs c)). \<exists>v. res = Inr v)
    \<and> itemLookup (snd (process_all U evs c)) k = Some r
    \<and> f_text (i_formatted (objects (snd (process_all U evs c)) r))
        = f_text (i_formatted (objects c r))
          @ concat (deltas_of ''response.text.delta'' (map fst evs))
    \<and> toString (f_transcript (i_formatted (objects (snd (process_all U evs c)) r)))
        = toString (f_transcript (i_formatted (objects c r)))
          @ concat (deltas_of ''response.audio_transcript.delta'' (map fst evs))
    \<and> map_option t_arguments (f_tool (i_formatted (objects (snd (process_all U evs c)) r)))
        = map_option
            (\<lambda>a. a @ concat (deltas_of ''response.function_call_arguments.delta'' (map fst evs)))
            (map_option t_arguments (f_tool (i_formatted (objects c r))))
    \<and> f_audio (i_formatted (objects (snd (process_all U evs c)) r))
        = map_option (\<lambda>a. a @ concat (map (\<lambda>d. or_empty (pcm16 U d))
            (deltas_of ''response.audio.delta'' (map fst evs))))
            (f_audio (i_formatted (objects c r)))"
  using deltas_run [OF assms] .

lemma pcm16_audio_delta_b:
  "\<exists>s. pcm16 example_utils (e_delta audio_delta_b) = Some s \<and> length s = 30"
  by (simp add: pcm16_def example_utils_def audio_delta_b_def blank_event_def)

theorem well_formed_deltas_concatenate_witness:
  "(let evs = [(transcript_delta_b, None), (text_delta_b_0, None), (audio_delta_b, None),
               (transcript_delta_b, None)];
        f' = i_formatted (objects (snd (process_all example_utils evs store_b)) 0)
    in concatenating example_utils
       \<and> itemLookup store_b ''b'' = Some 0
       \<and> delta_for example_utils ''b'' (objects store_b 0) transcript_delta_b
       \<and> delta_for example_utils ''b'' (objects store_b 0) text_delta_b_0
       \<and> delta_for example_utils ''b'' (objects store_b 0) audio_delta_b
       \<and> f_text f' = ''Hello''
       \<and> toString (f_transcript f') = ''Hi Hi ''
       \<and> map_option length (f_audio f') = Some 30)"
proof -
  obtain s where s: "pcm16 example_utils (e_delta audio_delta_b) = Some s" "length s = 30"
    using pcm16_audio_delta_b by blast
  have U: "concatenating example_utils"
    by (simp add: concatenating_def example_utils_def)
  have d: "delta_for example_utils ''b'' (objects store_b 0) transcript_delta_b"
    "delta_for example_utils ''b'' (objects store_b 0) text_delta_b_0"
    "delta_for example_utils ''b'' (objects store_b 0) audio_delta_b"
    using s(1)
    by (simp_all add: delta_for_def store_b_simps transcript_delta_b_def text_delta_b_0_def
        audio_delta_b_def blank_event_def)
  show ?thesis
    using well_formed_deltas_concatenate
      [of example_utils store_b "''b''" 0
          "[(transcript_delta_b, None), (text_delta_b_0, None), (audio_delta_b, None),
            (transcript_delta_b, None)]"]
      U d s
    by (simp add: Let_def store_b_simps transcript_delta_b_def text_delta_b_0_def
        audio_delta_b_def blank_event_def)
qed

text \<open>
  C2 as stated fails. The assistant message \<open>b\<close> is in the store with one content part
  and an empty \<open>formatted.text\<close>. A \<open>response.text.delta\<close> addressed to it with
  \<open>content_index\<close> 1 and delta \<open>Hello\<close> raises a TypeError at
  \<open>item['content'][1].text\<close>, and \<open>formatted.text\<close> is still empty, not \<open>Hello\<close>.
\<close>

theorem delta_without_part_counterexample:
  "itemLookup store_b ''b'' = Some 0
   \<and> e_type text_delta_b_1 = ''response.text.delta''
   \<and> e_item_id text_delta_b_1 = ''b''
   \<and> e_delta text_delta_b_1 = ''Hello''
   \<and> f_text (i_formatted (objects store_b 0)) = []
   \<and> fst (processEvent example_utils text_delta_b_1 None store_b) = Inl TypeError
   \<and> f_text (i_formatted (objects (snd (processEvent example_utils text_delta_b_1 None store_b)) 0))
       = []
   \<and> f_text (i_formatted (objects (snd (processEvent example_utils text_delta_b_1 None store_b)) 0))
       \<noteq> f_text (i_formatted (objects store_b 0)) @ e_delta text_delta_b_1"
  by (simp add: store_b_simps text_delta_b_1_def blank_event_def processEvent_def
      EventProcessors_simps text_delta_def update_part_def blank_part_def)

subsection \<open>Cancelling a response\<close>

lemma findIndex_None: "findIndex P xs = None \<longleftrightarrow> (\<forall>x \<in> set xs. \<not> P x)"
  by (induction xs) auto

lemma findIndex_Some:
  "findIndex P xs = Some i \<Longrightarrow> i < length xs \<and> P (xs ! i) \<and> (\<forall>j < i. \<not> P (xs ! j))"
proof (induction xs arbitrary: i)
  case Nil
  then show ?case by simp
next
  case (Cons x xs)
  show ?case
  proof (cases "P x")
    case True
    then show ?thesis using Cons.prems by simp
  next
    case False
    then obtain i' where i': "findIndex P xs = Some i'" "i = Suc i'"
      using Cons.prems by auto
    have "i' < length xs \<and> P (xs ! i') \<and> (\<forall>j < i'. \<not> P (xs ! j))"
      using Cons.IH [OF i'(1)] .
    then show ?thesis
      using False i'(2) by (auto simp: nth_Cons split: nat.splits)
  qed
qed

lemma audio_end_ms_of_examples:
  "audio_end_ms_of 0 = 0"
  "audio_end_ms_of 24000 = 1000"
  "audio_end_ms_of 48000 = 2000"
  "audio_end_ms_of 24024 = 1000"
  by (simp_all add: audio_end_ms_of_def round_to_double_def defaultFrequency_def Let_def
      bitlen.simps)

text \<open>
  C3, as the code has it. \<open>cancelResponse\<close> with an item id \<open>k\<close>: an unknown item, an item
  that is not a message and a message that is not the assistant's each raise their
  error and leave the client as it was, so nothing is sent. For an assistant message:
  when the link is not connected the call raises and sends nothing; when it is
  connected and the message has no audio part, the call raises the missing-audio
  error; and when it is connected and the message has an audio part, the call returns
  the item after sending \<open>response.cancel\<close> and then \<open>conversation.item.truncate\<close>, whose
  \<open>content_index\<close> is the index of the first audio part and whose \<open>audio_end_ms\<close> is
  \<open>Math.floor((sampleCount / 24000) * 1000)\<close> as double-precision arithmetic gives it.
\<close>

theorem cancelResponse_with_id:
  assumes "k \<noteq> []"
  shows "(getItem k (conversation cl) = None \<longrightarrow>
            cancelResponse k n cl = (Inl (CouldNotFindItem k), cl))
    \<and> (getItem k (conversation cl) = Some it \<and> i_type it \<noteq> Message \<longrightarrow>
            cancelResponse k n cl = (Inl NotTypeMessage, cl))
    \<and> (getItem k (conversation cl) = Some it \<and> i_type it = Message
          \<and> i_role it \<noteq> Some Assistant \<longrightarrow>
            cancelResponse k n cl = (Inl NotRoleAssistant, cl))
    \<and> (getItem k (conversation cl) = Some it \<and> i_type it = Message
          \<and> i_role it = Some Assistant \<and> \<not> isConnected (realtime cl) \<longrightarrow>
            cancelResponse k n cl = (Inl NotConnected, cl))
    \<and> (getItem k (conversation cl) = Some it \<and> i_type it = Message
          \<and> i_role it = Some Assistant \<and> isConnected (realtime cl)
          \<and> i_content it = Some parts \<and> (\<forall>c \<in> set parts. c_type c \<noteq> CAudio) \<longrightarrow>
            fst (cancelResponse k n cl) = Inl CouldNotFindAudio)
    \<and> (getItem k (conversation cl) = Some it \<and> i_type it = Message
          \<and> i_role it = Some Assistant \<and> isConnected (realtime cl)
          \<and> i_content it = Some parts \<and> (\<exists>c \<in> set parts. c_type c = CAudio) \<longrightarrow>
            (\<exists>i < length parts. c_type (parts ! i) = CAudio
               \<and> (\<forall>j < i. c_type (parts ! j) \<noteq> CAudio)
               \<and> cancelResponse k n cl =
                   (Inr (Some it),
                    cl\<lparr>realtime := (realtime cl)\<lparr>sent := sent (realtime cl) @
                      [(''response.cancel'', NoData),
                       (''conversation.item.truncate'',
                        TruncateData (audio_end_ms_of n) i k)]\<rparr>\<rparr>)))"
proof (intro conjI impI)
  assume "getItem k (conversation cl) = None"
  then show "cancelResponse k n cl = (Inl (CouldNotFindItem k), cl)"
    using assms by (simp add: cancelResponse_def)
next
  assume "getItem k (conversation cl) = Some it \<and> i_type it \<noteq> Message"
  then show "cancelResponse k n cl = (Inl NotTypeMessage, cl)"
    using assms by (simp add: cancelResponse_def)
next
  assume "getItem k (conversation cl) = Some it \<and> i_type it = Message
    \<and> i_role it \<noteq> Some Assistant"
  then show "cancelResponse k n cl = (Inl NotRoleAssistant, cl)"
    using assms by (simp add: cancelResponse_def)
next
  assume "getItem k (conversation cl) = Some it \<and> i_type it = Message
    \<and> i_role it = Some Assistant \<and> \<not> isConnected (realtime cl)"
  then show "cancelResponse k n cl = (Inl NotConnected, cl)"
    using assms by (simp add: cancelResponse_def send_def)
next
  assume a: "getItem k (conversation cl) = Some it \<and> i_type it = Message
    \<and> i_role it = Some Assistant \<and> isConnected (realtime cl)
    \<and> i_content it = Some parts \<and> (\<forall>c \<in> set parts. c_type c \<noteq> CAudio)"
  then have "findIndex (\<lambda>c. c_type c = CAudio) parts = None"
    by (simp add: findIndex_None)
  then show "fst (cancelResponse k n cl) = Inl CouldNotFindAudio"
    using assms a by (simp add: cancelResponse_def send_def Let_def)
next
  assume a: "getItem k (conversation cl) = Some it \<and> i_type it = Message
    \<and> i_role it = Some Assistant \<and> isConnected (realtime cl)
    \<and> i_content it = Some parts \<and> (\<exists>c \<in> set parts. c_type c = CAudio)"
  then have "findIndex (\<lambda>c. c_type c = CAudio) parts \<noteq> None"
    by (simp add: findIndex_None)
  then obtain i where i: "findIndex (\<lambda>c. c_type c = CAudio) parts = Some i"
    by blast
  have "cancelResponse k n cl =
      (Inr (Some it),
       cl\<lparr>realtime := (realtime cl)\<lparr>sent := sent (realtime cl) @
         [(''response.cancel'', NoData),
          (''conversation.item.truncate'', TruncateData (audio_end_ms_of n) i k)]\<rparr>\<rparr>)"
    using assms a i by (simp add: cancelResponse_def send_def Let_def isConnected_def)
  then show "\<exists>i < length parts. c_type (parts ! i) = CAudio
      \<and> (\<forall>j < i. c_type (parts ! j) \<noteq> CAudio)
      \<and> cancelResponse k n cl =
          (Inr (Some it),
           cl\<lparr>realtime := (realtime cl)\<lparr>sent := sent (realtime cl) @
             [(''response.cancel'', NoData),
              (''conversation.item.truncate'', TruncateData (audio_end_ms_of n) i k)]\<rparr>\<rparr>)"
    using findIndex_Some [OF i] by blast
qed

lemma client_b_simps:
  "getItem ''b'' (conversation client_b) = Some (objects store_b 0)"
  "getItem ''b'' (conversation offline_client_b) = Some (objects store_b 0)"
  "getItem ''zz'' (conversation client_b) = None"
  "isConnected (realtime client_b)"
  "\<not> isConnected (realtime offline_client_b)"
  "sent (realtime client_b) = []"
  "ws (realtime client_b) = Some 1"
  "ws (realtime offline_client_b) = None"
  by (simp_all add: client_b_def offline_client_b_def connected_client_def new_client_def
      getItem_def store_b_simps isConnected_def store_b_def created_b_def assistant_item_b_def
      processEvent_def EventProcessors_simps item_created_defs store_defs example_defs Let_def)

theorem cancelResponse_with_id_witness:
  "getItem ''b'' (conversation client_b) = Some (objects store_b 0)
   \<and> isConnected (realtime client_b)
   \<and> i_content (objects store_b 0) = Some [blank_part\<lparr>c_type := CAudio, c_transcript := Str []\<rparr>]
   \<and> cancelResponse ''b'' 48000 client_b =
       (Inr (Some (objects store_b 0)),
        client_b\<lparr>realtime := (realtime client_b)\<lparr>sent :=
          [(''response.cancel'', NoData),
           (''conversation.item.truncate'', TruncateData 2000 0 ''b'')]\<rparr>\<rparr>)
   \<and> cancelResponse ''zz'' 48000 client_b = (Inl (CouldNotFindItem ''zz''), client_b)"
proof -
  have k: "''b'' \<noteq> []" "''zz'' \<noteq> []" by simp_all
  note T = cancelResponse_with_id [OF k(1), where cl = client_b and it = "objects store_b 0"
      and n = 48000 and parts = "[blank_part\<lparr>c_type := CAudio, c_transcript := Str []\<rparr>]"]
  note Z = cancelResponse_with_id [OF k(2), where cl = client_b and it = "objects store_b 0"
      and n = 48000 and parts = "[]"]
  from T have "\<exists>i < length [blank_part\<lparr>c_type := CAudio, c_transcript := Str []\<rparr>].
      cancelResponse ''b'' 48000 client_b =
        (Inr (Some (objects store_b 0)),
         client_b\<lparr>realtime := (realtime client_b)\<lparr>sent := sent (realtime client_b) @
           [(''response.cancel'', NoData),
            (''conversation.item.truncate'', TruncateData (audio_end_ms_of 48000) i ''b'')]\<rparr>\<rparr>)"
    by (simp add: client_b_simps store_b_simps blank_part_def)
  then have b: "cancelResponse ''b'' 48000 client_b =
        (Inr (Some (objects store_b 0)),
         client_b\<lparr>realtime := (realtime client_b)\<lparr>sent :=
           [(''response.cancel'', NoData),
            (''conversation.item.truncate'', TruncateData 2000 0 ''b'')]\<rparr>\<rparr>)"
    by (simp add: client_b_simps audio_end_ms_of_examples)
  from Z have z: "cancelResponse ''zz'' 48000 client_b = (Inl (CouldNotFindItem ''zz''), client_b)"
    by (simp add: client_b_simps)
  show ?thesis
    using b z by (simp add: client_b_simps store_b_simps)
qed

text \<open>
  C3 as stated fails. The assistant message \<open>b\<close> has an audio part, so the claim has
  \<open>cancelResponse\<close> issue the two commands; on a client that is not connected it raises
  instead, and nothing is sent. And on the connected client with a sample count of
  24024 the truncate command carries an \<open>audio_end_ms\<close> of 1000, where
  \<open>floor(24024 / 24000 * 1000)\<close> is 1001: the quotient is rounded before it is multiplied.
\<close>

theorem cancelResponse_counterexample:
  "getItem ''b'' (conversation offline_client_b) = Some (objects store_b 0)
   \<and> i_type (objects store_b 0) = Message
   \<and> i_role (objects store_b 0) = Some Assistant
   \<and> i_content (objects store_b 0) = Some [blank_part\<lparr>c_type := CAudio, c_transcript := Str []\<rparr>]
   \<and> cancelResponse ''b'' 24024 offline_client_b = (Inl NotConnected, offline_client_b)
   \<and> sent (realtime offline_client_b) = []
   \<and> sent (realtime (snd (cancelResponse ''b'' 24024 client_b)))
       = [(''response.cancel'', NoData),
          (''conversation.item.truncate'', TruncateData 1000 0 ''b'')]
   \<and> (24024 * 1000) div 24000 = (1001 :: nat)"
  by (simp add: client_b_simps store_b_simps cancelResponse_def send_def Let_def
      audio_end_ms_of_examples blank_part_def isConnected_def)
     (simp add: offline_client_b_def new_client_def)

text \<open>
  What the theorem above leaves open: the audio part is looked for only after
  \<open>response.cancel\<close> has been sent. For the assistant message \<open>c\<close>, which has a text part
  only, the call raises the missing-audio error with that one command sent.
\<close>

lemma cancelResponse_without_audio_example:
  "cancelResponse ''c'' 0 client_c =
     (Inl CouldNotFindAudio,
      client_c\<lparr>realtime := (realtime client_c)\<lparr>sent := [(''response.cancel'', NoData)]\<rparr>\<rparr>)"
  by (simp add: cancelResponse_def send_def isConnected_def getItem_def client_c_def
      connected_client_def new_client_def assistant_item_c_def processEvent_def
      EventProcessors_simps item_created_defs store_defs example_defs Let_def)

subsection \<open>Waiting for the next event\<close>

lemma call_handlers_frame:
  "eventHandlers (foldl (call_handler ev) b hs) = eventHandlers b"
  "nextEventHandlers (foldl (call_handler ev) b hs) = nextEventHandlers b"
  "next_call (foldl (call_handler ev) b hs) = next_call b"
proof (induction hs arbitrary: b)
  case Nil
  {
    case 1 show ?case by simp
  next
    case 2 show ?case by simp
  next
    case 3 show ?case by simp
  }
next
  case (Cons h hs)
  {
    case 1 show ?case by (cases h) (simp_all add: Cons.IH)
  next
    case 2 show ?case by (cases h) (simp_all add: Cons.IH)
  next
    case 3 show ?case by (cases h) (simp_all add: Cons.IH)
  }
qed

lemma call_handlers_other:
  "NextEvent n \<notin> set hs \<Longrightarrow> nextEvent (foldl (call_handler ev) b hs) n = nextEvent b n"
proof (induction hs arbitrary: b)
  case Nil
  then show ?case by simp
next
  case (Cons h hs)
  then show ?case by (cases h) auto
qed

lemma call_handlers_mine:
  "NextEvent n \<in> set hs \<Longrightarrow> nextEvent (foldl (call_handler ev) b hs) n = ev"
proof (induction hs arbitrary: b)
  case Nil
  then show ?case by simp
next
  case (Cons h hs)
  show ?case
  proof (cases "NextEvent n \<in> set hs")
    case True
    then show ?thesis by (simp add: Cons.IH)
  next
    case False
    then have "h = NextEvent n" using Cons.prems by simp
    then show ?thesis using False by (simp add: call_handlers_other)
  qed
qed

lemma dispatch_frame:
  "eventHandlers (dispatch y ev b) = eventHandlers b"
  "nextEventHandlers (dispatch y ev b) = (nextEventHandlers b)(y := None)"
  by (simp_all add: dispatch_def Let_def call_handlers_frame)

lemma dispatch_nextEvent:
  "nextEvent (dispatch y ev b) n
     = (if NextEvent n \<in> set (or_empty (nextEventHandlers b y)) then ev
        else if NextEvent n \<in> set (or_empty (eventHandlers b y)) then ev
        else nextEvent b n)"
  by (simp add: dispatch_def Let_def call_handlers_frame call_handlers_other
      call_handlers_mine)

lemma waiting_dispatch_other:
  "waiting n x b \<Longrightarrow> y \<noteq> x \<Longrightarrow> waiting n x (dispatch y ev b)"
  by (simp add: waiting_def dispatch_frame dispatch_nextEvent)

lemma waiting_dispatch_mine:
  "waiting n x b \<Longrightarrow> unregistered n (dispatch x ev b) \<and> nextEvent (dispatch x ev b) n = ev"
  by (simp add: waiting_def unregistered_def dispatch_frame dispatch_nextEvent)

lemma unregistered_dispatch:
  "unregistered n b \<Longrightarrow>
     unregistered n (dispatch y ev b) \<and> nextEvent (dispatch y ev b) n = nextEvent b n"
  by (simp add: unregistered_def dispatch_frame dispatch_nextEvent)

lemma dispatch_all_simps [simp]:
  "dispatch_all [] b = b"
  "dispatch_all ((y, ev) # ds) b = dispatch_all ds (dispatch y ev b)"
  "dispatch_all (ds @ ds') b = dispatch_all ds' (dispatch_all ds b)"
  by (simp_all add: dispatch_all_def)

lemma waiting_dispatch_all:
  "waiting n x b \<Longrightarrow> x \<notin> fst ` set ds \<Longrightarrow> waiting n x (dispatch_all ds b)"
proof (induction ds arbitrary: b)
  case Nil
  then show ?case by simp
next
  case (Cons d ds)
  obtain y ev where d: "d = (y, ev)" by (cases d)
  have "y \<noteq> x"
    using Cons.prems(2) by (auto simp: d)
  then have "waiting n x (dispatch y ev b)"
    using Cons.prems(1) by (simp add: waiting_dispatch_other)
  then show ?case
    using Cons.IH Cons.prems(2) by (simp add: d)
qed

lemma unregistered_dispatch_all:
  "unregistered n b \<Longrightarrow>
     unregistered n (dispatch_all ds b) \<and> nextEvent (dispatch_all ds b) n = nextEvent b n"
proof (induction ds arbitrary: b)
  case Nil
  then show ?case by simp
next
  case (Cons d ds)
  obtain y ev where d: "d = (y, ev)" by (cases d)
  note u = unregistered_dispatch [OF Cons.prems, of y ev]
  show ?case
    using Cons.IH [of "dispatch y ev b"] u by (simp add: d)
qed

lemma loop_returns_payload:
  "truthy (nextEvent b n) \<Longrightarrow> fst (waitForNext_loop timeout t0 n turns b) = Some (nextEvent b n)"
  by (cases turns) auto

lemma loop_times_out:
  assumes "waiting n x b" and "quiet x t0 50 before" and "t0 + 50 < t"
  shows "fst (waitForNext_loop (Some 50) t0 n (before @ (t, ds) # after) b) = Some PNull"
  using assms(1,2)
proof (induction before arbitrary: b)
  case Nil
  have late: "50 < t - t0" using assms(3) by arith
  show ?case using Nil.prems(1) late by (simp add: waiting_def)
next
  case (Cons turn before)
  obtain t1 ds1 where turn: "turn = (t1, ds1)" by (cases turn)
  have q: "t1 \<le> t0 + 50" "x \<notin> fst ` set ds1" "quiet x t0 50 before"
    using Cons.prems(2) by (auto simp: quiet_def turn)
  have in_time: "\<not> 50 < t1 - t0" using q(1) by arith
  have w: "waiting n x (dispatch_all ds1 b)"
    using Cons.prems(1) q(2) by (rule waiting_dispatch_all)
  have "\<not> truthy (nextEvent b n)"
    using Cons.prems(1) by (simp add: waiting_def)
  then show ?case
    using in_time Cons.IH [OF w q(3)] by (simp add: turn)
qed

lemma loop_returns_first:
  assumes "waiting n x b" and "quiet x t0 50 before" and "t \<le> t0 + 50"
    and "x \<notin> fst ` set ds1" and "truthy p"
  shows "fst (waitForNext_loop (Some 50) t0 n
           (before @ (t, ds1 @ (x, p) # ds2) # after) b) = Some p"
  using assms(1,2)
proof (induction before arbitrary: b)
  case Nil
  have w: "waiting n x (dispatch_all ds1 b)"
    using Nil.prems(1) assms(4) by (rule waiting_dispatch_all)
  note m = waiting_dispatch_mine [OF w, of p]
  note u = unregistered_dispatch_all [of n "dispatch x p (dispatch_all ds1 b)" ds2]
  have p: "nextEvent (dispatch_all (ds1 @ (x, p) # ds2) b) n = p"
    using m u by simp
  have in_time: "\<not> 50 < t - t0" using assms(3) by arith
  have "\<not> truthy (nextEvent b n)"
    using Nil.prems(1) by (simp add: waiting_def)
  then show ?case
    using in_time assms(5) p
      loop_returns_payload [of "dispatch_all (ds1 @ (x, p) # ds2) b" n "Some 50" t0 after]
    by simp
next
  case (Cons turn before)
  obtain t1 ds' where turn: "turn = (t1, ds')" by (cases turn)
  have q: "t1 \<le> t0 + 50" "x \<notin> fst ` set ds'" "quiet x t0 50 before"
    using Cons.prems(2) by (auto simp: quiet_def turn)
  have in_time: "\<not> 50 < t1 - t0" using q(1) by arith
  have w: "waiting n x (dispatch_all ds' b)"
    using Cons.prems(1) q(2) by (rule waiting_dispatch_all)
  have "\<not> truthy (nextEvent b n)"
    using Cons.prems(1) by (simp add: waiting_def)
  then show ?case
    using in_time Cons.IH [OF w q(3)] by (simp add: turn)
qed

lemma waitForNext_registers:
  assumes "unregistered (next_call b) b"
  shows "waiting (next_call b) x
           (onNext x (NextEvent (next_call b))
              (b\<lparr>next_call := Suc (next_call b),
                 nextEvent := (nextEvent b)(next_call b := PUndefined)\<rparr>))"
  using assms by (simp add: waiting_def unregistered_def onNext_def)

text \<open>
  C4, as the code has it. On an event handler where the closure of the call is new,
  \<open>waitForNext(x, 50)\<close> started at clock \<open>t0\<close>, run against a schedule whose first turns
  are in time and see no dispatch of \<open>x\<close>: if the next turn reads a clock more than 50 ms
  after \<open>t0\<close>, the call returns \<open>null\<close>; if the next turn is in time and the first dispatch
  of \<open>x\<close> made during its sleep carries a truthy payload \<open>p\<close>, the call returns \<open>p\<close>, whatever
  is dispatched afterwards.
\<close>

theorem waitForNext_timeout_or_first_payload:
  assumes "unregistered (next_call b) b" and "quiet x t0 50 before"
  shows "(t0 + 50 < t \<longrightarrow>
            fst (waitForNext x (Some 50) t0 (before @ (t, ds) # after) b) = Some PNull)
    \<and> (t \<le> t0 + 50 \<and> x \<notin> fst ` set ds1 \<and> truthy p \<longrightarrow>
            fst (waitForNext x (Some 50) t0 (before @ (t, ds1 @ (x, p) # ds2) # after) b) = Some p)"
  using loop_times_out [OF waitForNext_registers [OF assms(1)] assms(2)]
    loop_returns_first [OF waitForNext_registers [OF assms(1)] assms(2)]
  by (simp add: waitForNext_def Let_def)

theorem waitForNext_timeout_or_first_payload_witness:
  "unregistered (next_call new_event_handler) new_event_handler
   \<and> quiet ''x'' 0 50 [(0, [(''y'', PNum 7)]), (20, [])]
   \<and> fst (waitForNext ''x'' (Some 50) 0
        [(0, [(''y'', PNum 7)]), (20, []), (51, [])] new_event_handler) = Some PNull
   \<and> fst (waitForNext ''x'' (Some 50) 0
        [(0, [(''y'', PNum 7)]), (20, []),
         (40, [(''y'', PNum 8), (''x'', PObj [(''a'', PNum 1)]), (''x'', PObj [])]), (41, [])]
        new_event_handler) = Some (PObj [(''a'', PNum 1)])"
proof -
  have u: "unregistered (next_call new_event_handler) new_event_handler"
    by (simp add: unregistered_def new_event_handler_def)
  have q: "quiet ''x'' 0 50 [(0, [(''y'', PNum 7)]), (20, [])]"
    by (simp add: quiet_def)
  show ?thesis
    using u q
      waitForNext_timeout_or_first_payload [OF u q, of 51 "[]" "[]" "[]" "PUndefined" "[]"]
      waitForNext_timeout_or_first_payload [OF u q, of 40 "[]" "[(41, [])]"
        "[(''y'', PNum 8)]" "PObj [(''a'', PNum 1)]" "[(''x'', PObj [])]"]
    by simp
qed

text \<open>
  C4 as stated fails. \<open>dispatch("x", 0)\<close> is made during the first sleep of
  \<open>waitForNext("x", 50)\<close>, well within 50 ms, and the call returns \<open>null\<close> at the turn that
  reads 60 ms, not the payload \<open>0\<close>: the loop tests the payload for truth. The same
  happens with a dispatch that carries no payload, as the client's own
  \<open>dispatch('conversation.interrupted')\<close>.
\<close>

theorem waitForNext_falsy_payload_counterexample:
  "fst (waitForNext ''x'' (Some 50) 0 [(0, [(''x'', PNum 0)]), (10, []), (60, [])]
          new_event_handler) = Some PNull
   \<and> fst (waitForNext ''conversation.interrupted'' (Some 50) 0
          [(0, [(''conversation.interrupted'', PUndefined)]), (10, []), (60, [])]
          new_event_handler) = Some PNull"
  by (simp add: waitForNext_def new_event_handler_def onNext_def dispatch_def Let_def)

end
